theory Spec2Isabelle
  imports Complex_Main
begin

section \<open>Python values used by the SCORM XBlock\<close>

subsection \<open>Floats\<close>

text \<open>
  A Python \<^verbatim>\<open>float\<close> is an IEEE 754 binary64 number.  A finite one is kept as the
  rational number it denotes, so that comparisons and arithmetic are exact and the
  rounding of every operation is written out.  The sign of zero is not kept:
  \<^verbatim>\<open>-0.0 == 0.0\<close> in Python and no comparison made by the block tells them apart.
\<close>

datatype pyfloat = Finite rat | PosInf | NegInf | NaN

definition pow2 :: "int \<Rightarrow> rat" where
  "pow2 k = (if 0 \<le> k then of_int (2 ^ nat k) else 1 / of_int (2 ^ nat (- k)))"

function bitlen :: "int \<Rightarrow> int" where
  "bitlen n = (if n \<le> 0 then 0 else 1 + bitlen (n div 2))"
  by pat_completeness auto
termination
  by (relation "measure nat") auto

declare bitlen.simps [simp del]

definition round_half_even :: "rat \<Rightarrow> int" where
  "round_half_even x =
     (let f = \<lfloor>x\<rfloor>; r = x - of_int f
      in if r < 1 / 2 then f else if 1 / 2 < r then f + 1 else if even f then f else f + 1)"

definition ilog2 :: "rat \<Rightarrow> int" where
  \<comment> \<open>\<open>\<lfloor>log\<^sub>2 x\<rfloor>\<close> for \<open>0 < x\<close>, from the bit lengths of numerator and denominator\<close>
  "ilog2 x =
     (let (n, d) = quotient_of x;
          k = bitlen n - bitlen d
      in if pow2 k \<le> x then k else k - 1)"

definition round_binary64 :: "rat \<Rightarrow> pyfloat" where
  \<comment> \<open>round to nearest, ties to even: 53 bits of mantissa \<open>m\<close>, exponent \<open>e\<close> at least
      \<open>-1074\<close> (subnormals); the largest finite value is \<open>(2^53 - 1) * 2^971\<close>\<close>
  "round_binary64 x =
     (if x = 0 then Finite 0
      else let a = \<bar>x\<bar>;
               e = max (ilog2 a - 52) (- 1074);
               m = round_half_even (a / pow2 e)
           in if 971 < e \<or> (e = 971 \<and> 2 ^ 53 \<le> m) then (if 0 < x then PosInf else NegInf)
              else Finite (if 0 < x then of_int m * pow2 e else - (of_int m * pow2 e)))"

definition float_div_100 :: "pyfloat \<Rightarrow> pyfloat" where
  \<comment> \<open>\<^verbatim>\<open>x / 100.0\<close>\<close>
  "float_div_100 x =
     (case x of Finite q \<Rightarrow> round_binary64 (q / 100) | PosInf \<Rightarrow> PosInf
      | NegInf \<Rightarrow> NegInf | NaN \<Rightarrow> NaN)"

definition float_mul_100 :: "pyfloat \<Rightarrow> pyfloat" where
  \<comment> \<open>\<^verbatim>\<open>x * 100\<close>\<close>
  "float_mul_100 x =
     (case x of Finite q \<Rightarrow> round_binary64 (q * 100) | PosInf \<Rightarrow> PosInf
      | NegInf \<Rightarrow> NegInf | NaN \<Rightarrow> NaN)"

definition round_2 :: "pyfloat \<Rightarrow> pyfloat" where
  \<comment> \<open>\<^verbatim>\<open>round(x, 2)\<close>: the exact value of \<open>x\<close> is rounded half-even to two decimals and
      the decimal is read back as a float; infinities and nan round to themselves\<close>
  "round_2 x =
     (case x of Finite q \<Rightarrow> round_binary64 (of_int (round_half_even (q * 100)) / 100)
      | PosInf \<Rightarrow> PosInf | NegInf \<Rightarrow> NegInf | NaN \<Rightarrow> NaN)"

definition float_lt :: "pyfloat \<Rightarrow> pyfloat \<Rightarrow> bool" where
  \<comment> \<open>\<^verbatim>\<open>x < y\<close>: false whenever a nan is involved\<close>
  "float_lt x y =
     (case (x, y) of
        (NaN, _) \<Rightarrow> False | (_, NaN) \<Rightarrow> False
      | (Finite p, Finite q) \<Rightarrow> p < q
      | (NegInf, NegInf) \<Rightarrow> False | (NegInf, _) \<Rightarrow> True
      | (PosInf, _) \<Rightarrow> False
      | (Finite p, PosInf) \<Rightarrow> True | (Finite p, NegInf) \<Rightarrow> False)"

definition float_le :: "pyfloat \<Rightarrow> pyfloat \<Rightarrow> bool" where
  \<comment> \<open>\<^verbatim>\<open>x <= y\<close>: false whenever a nan is involved\<close>
  "float_le x y =
     (case (x, y) of
        (NaN, _) \<Rightarrow> False | (_, NaN) \<Rightarrow> False
      | (Finite p, Finite q) \<Rightarrow> p \<le> q
      | (NegInf, _) \<Rightarrow> True
      | (_, PosInf) \<Rightarrow> True
      | (PosInf, _) \<Rightarrow> False
      | (Finite p, NegInf) \<Rightarrow> False)"

subsection \<open>Reading a float from a string\<close>

text \<open>
  \<^verbatim>\<open>float(s)\<close> on a string: underscores are allowed between two digits only and are
  removed, white space around the text is dropped, then the text is a sign followed by
  \<^verbatim>\<open>inf\<close>, \<^verbatim>\<open>infinity\<close> or \<^verbatim>\<open>nan\<close> in any letter case, or a decimal numeral with an
  optional fraction and exponent.  Anything else raises \<^verbatim>\<open>ValueError\<close> (\<open>None\<close> here).
  Strings are ASCII text.
\<close>

definition is_digit :: "char \<Rightarrow> bool" where
  "is_digit c = (48 \<le> (of_char c :: nat) \<and> (of_char c :: nat) \<le> 57)"

definition is_space :: "char \<Rightarrow> bool" where
  "is_space c = ((of_char c :: nat) = 32 \<or> (9 \<le> (of_char c :: nat) \<and> (of_char c :: nat) \<le> 13))"

definition lower :: "char \<Rightarrow> char" where
  "lower c = (if 65 \<le> (of_char c :: nat) \<and> (of_char c :: nat) \<le> 90
              then char_of ((of_char c :: nat) + 32) else c)"

definition strip :: "string \<Rightarrow> string" where
  "strip s = rev (dropWhile is_space (rev (dropWhile is_space s)))"

fun drop_underscores :: "char option \<Rightarrow> string \<Rightarrow> string option" where
  "drop_underscores prev [] = Some []"
| "drop_underscores prev (c # cs) =
     (if c = CHR ''_'' then
        (case (prev, cs) of
           (Some p, d # _) \<Rightarrow>
             if is_digit p \<and> is_digit d then drop_underscores (Some c) cs else None
         | _ \<Rightarrow> None)
      else map_option ((#) c) (drop_underscores (Some c) cs))"

definition int_of_digits :: "string \<Rightarrow> int" where
  "int_of_digits ds = foldl (\<lambda>n c. 10 * n + ((of_char c :: int) - 48)) 0 ds"

definition pow10 :: "int \<Rightarrow> rat" where
  "pow10 k = (if 0 \<le> k then of_int (10 ^ nat k) else 1 / of_int (10 ^ nat (- k)))"

definition split_sign :: "string \<Rightarrow> bool \<times> string" where
  "split_sign s =
     (case s of
        c # cs \<Rightarrow> if c = CHR ''-'' then (True, cs) else if c = CHR ''+'' then (False, cs)
                  else (False, s)
      | [] \<Rightarrow> (False, s))"

definition parse_exponent :: "string \<Rightarrow> int option" where
  \<comment> \<open>the text after the mantissa: empty, or \<^verbatim>\<open>e\<close>/\<^verbatim>\<open>E\<close>, a sign and at least one digit\<close>
  "parse_exponent s =
     (case s of
        [] \<Rightarrow> Some 0
      | c # cs \<Rightarrow>
          if c = CHR ''e'' \<or> c = CHR ''E'' then
            (let (neg, ds) = split_sign cs
             in if ds \<noteq> [] \<and> list_all is_digit ds
                then Some (if neg then - int_of_digits ds else int_of_digits ds)
                else None)
          else None)"

definition parse_decimal :: "string \<Rightarrow> rat option" where
  "parse_decimal s =
     (let ip = takeWhile is_digit s;
          r1 = dropWhile is_digit s;
          (fp, r2) = (case r1 of
                        c # cs \<Rightarrow> if c = CHR ''.''
                                  then (takeWhile is_digit cs, dropWhile is_digit cs)
                                  else ([], r1)
                      | [] \<Rightarrow> ([], r1))
      in if ip = [] \<and> fp = [] then None
         else (case parse_exponent r2 of
                 None \<Rightarrow> None
               | Some ex \<Rightarrow>
                   Some (of_int (int_of_digits (ip @ fp)) * pow10 (ex - int (length fp)))))"

definition float_of_str :: "string \<Rightarrow> pyfloat option" where
  "float_of_str s =
     (case drop_underscores None s of
        None \<Rightarrow> None
      | Some u \<Rightarrow>
          (let (neg, body) = split_sign (strip u);
               word = map lower body
           in if word = ''inf'' \<or> word = ''infinity'' then Some (if neg then NegInf else PosInf)
              else if word = ''nan'' then Some NaN
              else (case parse_decimal body of
                      None \<Rightarrow> None
                    | Some q \<Rightarrow> Some (round_binary64 (if neg then - q else q)))))"


subsection \<open>Values on the wire\<close>

text \<open>
  The JSON handlers receive a dictionary \<^verbatim>\<open>data\<close> and answer with one.  Request
  values are strings (\<^verbatim>\<open>{"name": key, "value": string}\<close>); a missing key is \<open>None\<close>,
  which is what \<^verbatim>\<open>data.get\<close> returns for it.
\<close>

datatype pyval = VNone | VStr string | VFloat pyfloat

type_synonym request = "string \<rightharpoonup> string"

type_synonym response = "string \<rightharpoonup> pyval"

definition str_or_none :: "string option \<Rightarrow> pyval" where
  "str_or_none v = (case v of None \<Rightarrow> VNone | Some s \<Rightarrow> VStr s)"

datatype error = ValueError | TypeError | ParseError

section \<open>The block\<close>

text \<open>
  The fields of \<^verbatim>\<open>ScormXBlock\<close> that the handlers read and write, with what the
  block sends to its runtime: \<^verbatim>\<open>runtime.publish(self, "grade", {value, max_value})\<close>
  and \<^verbatim>\<open>emit_completion(1.0)\<close>, recorded in the order they are sent.
\<close>

datatype event = Grade pyfloat pyfloat | Completion pyfloat

record location =
  org :: string
  course :: string
  block_id :: string

record ScormXBlock =
  scorm_file :: "string option"
  path_index_page :: "string option"
  version_scorm :: string
  lesson_status :: "string option"
  success_status :: "string option"
  data_scorm :: "string option \<rightharpoonup> string"
  lesson_score :: pyfloat
  weight :: pyfloat
  has_score :: bool
  location :: location
  events :: "event list"

text \<open>The module constants that come from the platform settings.\<close>

record settings =
  SCORM_URL :: string
  ENABLE_PUBLISH_FAILED_SCORM_SCORE :: bool

definition new_block :: "location \<Rightarrow> ScormXBlock" where
  \<comment> \<open>the defaults of the field declarations\<close>
  "new_block loc =
     \<lparr>scorm_file = None, path_index_page = None, version_scorm = ''SCORM_12'',
      lesson_status = Some ''not attempted'', success_status = Some ''unknown'',
      data_scorm = Map.empty, lesson_score = Finite 0, weight = Finite 1,
      has_score = True, location = loc, events = []\<rparr>"

subsection \<open>The runtime handlers\<close>

definition get_completion_status :: "ScormXBlock \<Rightarrow> string option" where
  "get_completion_status self =
     (if version_scorm self = ''SCORM_2004'' \<and> success_status self \<noteq> Some ''unknown''
      then success_status self
      else lesson_status self)"

definition publish_grade :: "settings \<Rightarrow> ScormXBlock \<Rightarrow> ScormXBlock" where
  "publish_grade cfg self =
     (if \<not> ENABLE_PUBLISH_FAILED_SCORM_SCORE cfg \<and>
         (lesson_status self = Some ''failed'' \<or>
          (version_scorm self = ''SCORM_2004'' \<and>
           success_status self \<in> set [Some ''failed'', Some ''unknown'']))
      then self\<lparr>events := events self @ [Grade (Finite 0) (weight self)]\<rparr>
      else self\<lparr>events := events self @ [Grade (lesson_score self) (weight self)]\<rparr>)"

definition emit_completion :: "ScormXBlock \<Rightarrow> pyfloat \<Rightarrow> ScormXBlock" where
  "emit_completion self completion_percent =
     self\<lparr>events := events self @ [Completion completion_percent]\<rparr>"

definition get_or_empty :: "string option \<Rightarrow> string" where
  \<comment> \<open>the default \<^verbatim>\<open>""\<close> of \<^verbatim>\<open>get(key, "")\<close>\<close>
  "get_or_empty v = (case v of None \<Rightarrow> [] | Some s \<Rightarrow> s)"

definition scorm_get_value :: "ScormXBlock \<Rightarrow> request \<Rightarrow> response" where
  "scorm_get_value self data =
     (let name = data ''name''
      in if name \<in> set [Some ''cmi.core.lesson_status'', Some ''cmi.completion_status'']
         then [''value'' \<mapsto> str_or_none (lesson_status self)]
         else if name = Some ''cmi.success_status''
         then [''value'' \<mapsto> str_or_none (success_status self)]
         else if name \<in> set [Some ''cmi.core.score.raw'', Some ''cmi.score.raw'']
         then [''value'' \<mapsto> VFloat (float_mul_100 (lesson_score self))]
         else [''value'' \<mapsto> VStr (get_or_empty (data_scorm self name))])"

definition float_of_value :: "string option \<Rightarrow> pyfloat option" where
  \<comment> \<open>\<^verbatim>\<open>float(data.get("value", 0))\<close>\<close>
  "float_of_value v = (case v of None \<Rightarrow> Some (Finite 0) | Some s \<Rightarrow> float_of_str s)"

definition set_value_body ::
  "settings \<Rightarrow> ScormXBlock \<Rightarrow> request \<Rightarrow> response \<Rightarrow> ScormXBlock \<times> (error + response)" where
  \<comment> \<open>the \<^verbatim>\<open>if\<close>/\<^verbatim>\<open>elif\<close> chain of \<^verbatim>\<open>scorm_set_value\<close>; on a raise, the block as it
      is at that moment\<close>
  "set_value_body cfg self data context =
     (let name = data ''name''
      in if name \<in> set [Some ''cmi.core.lesson_status'', Some ''cmi.completion_status'']
         then
           (let self = self\<lparr>lesson_status := data ''value''\<rparr>
            in if has_score self \<and>
                  data ''value'' \<in> set [Some ''completed'', Some ''failed'', Some ''passed'']
               then (let self = publish_grade cfg self
                     in (self, Inr (context(''lesson_score'' \<mapsto> VFloat (lesson_score self)))))
               else (self, Inr context))
         else if name = Some ''cmi.success_status''
         then
           (let self = self\<lparr>success_status := data ''value''\<rparr>
            in if has_score self
               then (let self = (if success_status self = Some ''unknown''
                                 then self\<lparr>lesson_score := Finite 0\<rparr> else self);
                         self = publish_grade cfg self
                     in (self, Inr (context(''lesson_score'' \<mapsto> VFloat (lesson_score self)))))
               else (self, Inr context))
         else if name \<in> set [Some ''cmi.core.score.raw'', Some ''cmi.score.raw''] \<and> has_score self
         then
           (case float_of_value (data ''value'') of
              None \<Rightarrow> (self, Inl ValueError)
            | Some x \<Rightarrow>
                (let self = self\<lparr>lesson_score := round_2 (float_div_100 x)\<rparr>;
                     self = publish_grade cfg self
                 in (self, Inr (context(''lesson_score'' \<mapsto> VFloat (lesson_score self))))))
         else
           (self\<lparr>data_scorm := (data_scorm self)(name \<mapsto> get_or_empty (data ''value''))\<rparr>,
            Inr context))"

definition scorm_set_value ::
  "settings \<Rightarrow> ScormXBlock \<Rightarrow> request \<Rightarrow> ScormXBlock \<times> (error + response)" where
  "scorm_set_value cfg self data =
     (case set_value_body cfg self data [''result'' \<mapsto> VStr ''success''] of
        (self, Inl e) \<Rightarrow> (self, Inl e)
      | (self, Inr context) \<Rightarrow>
          (let completion_status = get_completion_status self;
               context = context(''completion_status'' \<mapsto> str_or_none completion_status);
               self = (if completion_status \<in> set [Some ''passed'', Some ''failed'', Some ''completed'']
                       then emit_completion self (Finite 1) else self)
           in (self, Inr context)))"

text \<open>A session: set calls one after the other, each on the block the last one left.\<close>

fun run_sets :: "settings \<Rightarrow> ScormXBlock \<Rightarrow> request list \<Rightarrow> ScormXBlock" where
  "run_sets cfg self [] = self"
| "run_sets cfg self (data # rest) = run_sets cfg (fst (scorm_set_value cfg self data)) rest"


subsection \<open>Reading the manifest\<close>

text \<open>
  What \<^verbatim>\<open>xml.etree.ElementTree\<close> gives for \<^verbatim>\<open>imsmanifest.xml\<close>: an element has a tag
  (written \<^verbatim>\<open>{uri}name\<close> when it is in a namespace), attributes, the text before its
  first child (\<^verbatim>\<open>None\<close> when there is none) and its children in document order.
  Opening the file fails with \<^verbatim>\<open>IOError\<close> when it is absent, and parsing raises
  \<^verbatim>\<open>ParseError\<close> when it is not well-formed; otherwise the parser reports the namespace
  declarations (prefix, uri) in document order and the root element.
\<close>

datatype element =
  Element (elem_tag: string) (elem_attrib: "(string \<times> string) list")
    (elem_text: "string option") (elem_children: "element list")

datatype manifest_file = Absent | Malformed | Parsed "(string \<times> string) list" element

definition find_path :: "element \<Rightarrow> string \<Rightarrow> string \<Rightarrow> element option" where
  \<comment> \<open>\<^verbatim>\<open>root.find("a/b")\<close>: the first child tagged \<open>b\<close> of a child of the root tagged \<open>a\<close>\<close>
  "find_path tree_root a b =
     List.find (\<lambda>e. elem_tag e = b)
       (concat (map elem_children (filter (\<lambda>c. elem_tag c = a) (elem_children tree_root))))"

definition default_namespace :: "(string \<times> string) list \<Rightarrow> string" where
  \<comment> \<open>the loop over the \<^verbatim>\<open>start-ns\<close> events: the first declaration with an empty prefix\<close>
  "default_namespace nodes =
     (case List.find (\<lambda>node. fst node = []) nodes of None \<Rightarrow> [] | Some node \<Rightarrow> snd node)"

definition qualified_tag :: "string \<Rightarrow> string \<Rightarrow> string" where
  \<comment> \<open>\<^verbatim>\<open>"{{{0}}}name".format(namespace)\<close>\<close>
  "qualified_tag namespace name = ''{'' @ namespace @ ''}'' @ name"

definition re_match_1_2 :: "string \<Rightarrow> bool" where
  \<comment> \<open>\<^verbatim>\<open>re.match("^1.2$", s) is not None\<close>: the character \<^verbatim>\<open>1\<close>, any character but a
      newline (the dot is not escaped), the character \<^verbatim>\<open>2\<close>, then the end of the string or
      a newline that ends it\<close>
  "re_match_1_2 s =
     (case s of
        c1 # c2 # c3 # rest \<Rightarrow>
          c1 = CHR ''1'' \<and> c2 \<noteq> CHR 0x0A \<and> c3 = CHR ''2'' \<and> (rest = [] \<or> rest = [CHR 0x0A])
      | _ \<Rightarrow> False)"

definition py_str :: "string option \<Rightarrow> string" where
  \<comment> \<open>how \<^verbatim>\<open>format\<close> prints a string field that may hold \<^verbatim>\<open>None\<close>\<close>
  "py_str v = (case v of None \<Rightarrow> ''None'' | Some s \<Rightarrow> s)"

definition os_path_join :: "string \<Rightarrow> string \<Rightarrow> string" where
  "os_path_join a b =
     (if take 1 b = ''/'' then b
      else if a = [] \<or> take 1 (rev a) = ''/'' then a @ b
      else a @ ''/'' @ b)"

definition read_manifest :: "ScormXBlock \<Rightarrow> manifest_file \<Rightarrow> ScormXBlock \<times> (error + unit)" where
  \<comment> \<open>the \<^verbatim>\<open>try\<close> statement of \<^verbatim>\<open>set_fields_xblock\<close>\<close>
  "read_manifest self file =
     (case file of
        Absent \<Rightarrow> (self, Inr ())
      | Malformed \<Rightarrow> (self, Inl ParseError)
      | Parsed nodes tree_root \<Rightarrow>
          (let namespace = default_namespace nodes;
               resource =
                 (if namespace \<noteq> []
                  then find_path tree_root (qualified_tag namespace ''resources'')
                         (qualified_tag namespace ''resource'')
                  else find_path tree_root ''resources'' ''resource'');
               schemaversion =
                 (if namespace \<noteq> []
                  then find_path tree_root (qualified_tag namespace ''metadata'')
                         (qualified_tag namespace ''schemaversion'')
                  else find_path tree_root ''metadata'' ''schemaversion'');
               self = (case resource of
                         Some r \<Rightarrow> self\<lparr>path_index_page := map_of (elem_attrib r) ''href''\<rparr>
                       | None \<Rightarrow> self)
           in case schemaversion of
                None \<Rightarrow> (self\<lparr>version_scorm := ''SCORM_12''\<rparr>, Inr ())
              | Some sv \<Rightarrow>
                  (case elem_text sv of
                     None \<Rightarrow> (self, Inl TypeError)
                   | Some t \<Rightarrow>
                       if \<not> re_match_1_2 t
                       then (self\<lparr>version_scorm := ''SCORM_2004''\<rparr>, Inr ())
                       else (self\<lparr>version_scorm := ''SCORM_12''\<rparr>, Inr ()))))"

definition set_fields_xblock ::
  "settings \<Rightarrow> ScormXBlock \<Rightarrow> manifest_file \<Rightarrow> ScormXBlock \<times> (error + unit)" where
  "set_fields_xblock cfg self file =
     (case read_manifest (self\<lparr>path_index_page := Some ''index.html''\<rparr>) file of
        (self, Inl e) \<Rightarrow> (self, Inl e)
      | (self, Inr _) \<Rightarrow>
          (self\<lparr>scorm_file :=
                   Some (os_path_join (SCORM_URL cfg)
                           (org (location self) @ ''/'' @ course (location self) @ ''/'' @
                            block_id (location self) @ ''/'' @ py_str (path_index_page self)))\<rparr>,
           Inr ()))"


subsection \<open>What the sinks receive\<close>

fun grades :: "event list \<Rightarrow> (pyfloat \<times> pyfloat) list" where
  "grades [] = []"
| "grades (Grade v m # es) = (v, m) # grades es"
| "grades (Completion c # es) = grades es"

fun completions :: "event list \<Rightarrow> pyfloat list" where
  "completions [] = []"
| "completions (Grade v m # es) = completions es"
| "completions (Completion c # es) = c # completions es"

definition raw_score_key :: "string option \<Rightarrow> bool" where
  "raw_score_key name = (name \<in> set [Some ''cmi.core.score.raw'', Some ''cmi.score.raw''])"

definition lesson_status_key :: "string option \<Rightarrow> bool" where
  "lesson_status_key name =
     (name \<in> set [Some ''cmi.core.lesson_status'', Some ''cmi.completion_status''])"

subsection \<open>Concrete inputs\<close>

definition default_settings :: settings where
  \<comment> \<open>the flag is off unless the platform turns it on\<close>
  "default_settings =
     \<lparr>SCORM_URL = ''/media/scormxblockmedia'', ENABLE_PUBLISH_FAILED_SCORM_SCORE = False\<rparr>"

definition demo_location :: location where
  "demo_location = \<lparr>org = ''edX'', course = ''DemoX'', block_id = ''scorm1''\<rparr>"

definition demo_block :: ScormXBlock where
  "demo_block = new_block demo_location"

subsection \<open>The SCORM vocabulary\<close>

definition lesson_status_values :: "string list" where
  "lesson_status_values =
     [''not attempted'', ''incomplete'', ''completed'', ''passed'', ''failed'']"

definition success_status_values :: "string list" where
  "success_status_values = [''unknown'', ''passed'', ''failed'']"

definition status_values_ok :: "request \<Rightarrow> bool" where
  \<comment> \<open>a set call whose value, when it sets a status, is a word of that status\<close>
  "status_values_ok data =
     ((lesson_status_key (data ''name'') \<longrightarrow>
         data ''value'' \<in> set (map Some lesson_status_values)) \<and>
      (data ''name'' = Some ''cmi.success_status'' \<longrightarrow>
         data ''value'' \<in> set (map Some success_status_values)))"

subsection \<open>Concrete manifests\<close>

definition manifest_with_version :: "string \<Rightarrow> manifest_file" where
  \<comment> \<open>no namespace, one resource with an entry point, and the given schema version\<close>
  "manifest_with_version v =
     Parsed []
       (Element ''manifest'' [] None
          [Element ''metadata'' [] None [Element ''schemaversion'' [] (Some v) []],
           Element ''resources'' [] None
             [Element ''resource'' [(''identifier'', ''r1''), (''href'', ''start.html'')] None []]])"

definition manifest_without_href :: manifest_file where
  \<comment> \<open>a resource element that has no \<^verbatim>\<open>href\<close> attribute\<close>
  "manifest_without_href =
     Parsed []
       (Element ''manifest'' [] None
          [Element ''metadata'' [] None [Element ''schemaversion'' [] (Some ''1.2'') []],
           Element ''resources'' [] None
             [Element ''resource'' [(''identifier'', ''r1'')] None []]])"

subsection \<open>Ranges of scores and grades\<close>

definition unit_score :: "pyfloat \<Rightarrow> bool" where
  \<comment> \<open>\<^verbatim>\<open>0 <= x <= 1\<close>: a number between 0 and 1, so not a nan\<close>
  "unit_score x = (float_le (Finite 0) x \<and> float_le x (Finite 1))"

definition grade_in_range :: "pyfloat \<Rightarrow> pyfloat \<times> pyfloat \<Rightarrow> bool" where
  \<comment> \<open>a grade event (value, max_value) of a block of weight \<open>w\<close>: the maximum is \<open>w\<close> and
      \<^verbatim>\<open>0 <= value <= w\<close>; false when the value or the weight is a nan\<close>
  "grade_in_range w g = (snd g = w \<and> float_le (Finite 0) (fst g) \<and> float_le (fst g) w)"

definition raw_value_in_range :: "request \<Rightarrow> bool" where
  \<comment> \<open>a call on a raw-score key has a value that \<^verbatim>\<open>float\<close> rejects, or one that reads as
      a number \<open>x\<close> with \<^verbatim>\<open>0 <= x <= 100\<close>\<close>
  "raw_value_in_range data =
     (raw_score_key (data ''name'') \<longrightarrow>
        (case float_of_value (data ''value'') of
           None \<Rightarrow> True
         | Some x \<Rightarrow> float_le (Finite 0) x \<and> float_le x (Finite 100)))"

definition session_in_range :: "ScormXBlock \<Rightarrow> ScormXBlock \<Rightarrow> bool" where
  \<comment> \<open>what a session that started at the block \<open>start\<close> keeps: the weight, a stored score
      between 0 and 1, and after the grades of \<open>start\<close> only grades in range\<close>
  "session_in_range start self =
     (weight self = weight start \<and> unit_score (lesson_score self) \<and>
      (\<exists>new. grades (events self) = grades (events start) @ new \<and>
             list_all (grade_in_range (weight start)) new))"

section \<open>Properties of the float model\<close>

subsection \<open>Rounding stays between 0 and 1\<close>

lemma round_half_even_le: "x \<le> of_int n \<Longrightarrow> round_half_even x \<le> n"
proof -
  assume le: "x \<le> of_int n"
  show ?thesis
  proof (cases "x = of_int n")
    case True
    then show ?thesis by (simp add: round_half_even_def)
  next
    case False
    with le have "x < of_int n" by simp
    then have "\<lfloor>x\<rfloor> < n" by (simp add: floor_less_iff)
    then show ?thesis by (simp add: round_half_even_def Let_def)
  qed
qed

lemma round_half_even_ge: "of_int n \<le> x \<Longrightarrow> n \<le> round_half_even x"
proof -
  assume "of_int n \<le> x"
  then have "n \<le> \<lfloor>x\<rfloor>" by (simp add: le_floor_iff)
  then show ?thesis by (simp add: round_half_even_def Let_def)
qed

lemma bitlen_nonneg: "0 \<le> bitlen n"
  by (induction n rule: bitlen.induct) (simp add: bitlen.simps)

lemma bitlen_mono: "m \<le> n \<Longrightarrow> bitlen m \<le> bitlen n"
proof (induction n arbitrary: m rule: bitlen.induct)
  case (1 n)
  show ?case
  proof (cases "m \<le> 0")
    case True
    then have "bitlen m = 0" by (simp add: bitlen.simps)
    then show ?thesis by (simp add: bitlen_nonneg)
  next
    case False
    with "1.prems" have pos: "\<not> n \<le> 0" by simp
    have "m div 2 \<le> n div 2" using "1.prems" by (simp add: zdiv_mono1)
    from "1.IH" [OF pos this] False pos show ?thesis
      by (simp add: bitlen.simps [of m] bitlen.simps [of n])
  qed
qed

lemma ilog2_le_0:
  assumes "0 < x" and "x \<le> 1"
  shows "ilog2 x \<le> 0"
proof -
  obtain n d where q: "quotient_of x = (n, d)" by (cases "quotient_of x")
  then have d: "0 < d" by (rule quotient_of_denom_pos)
  from q have x: "x = of_int n / of_int d" by (rule quotient_of_div)
  with assms(2) d have "n \<le> d" by (simp add: divide_le_eq)
  then have "bitlen n - bitlen d \<le> 0" using bitlen_mono [of n d] by simp
  then show ?thesis using q by (simp add: ilog2_def Let_def)
qed

lemma round_binary64_unit:
  assumes "0 \<le> x" and "x \<le> 1"
  shows "\<exists>r. round_binary64 x = Finite r \<and> 0 \<le> r \<and> r \<le> 1"
proof (cases "x = 0")
  case True
  then show ?thesis by (simp add: round_binary64_def)
next
  case False
  with assms(1) have pos: "0 < x" by simp
  define e where "e = max (ilog2 x - 52) (- 1074)"
  define N :: int where "N = 2 ^ nat (- e)"
  define m where "m = round_half_even (x / pow2 e)"
  have e: "e < 0"
    using ilog2_le_0 [OF pos assms(2)] by (simp add: e_def)
  have N: "0 < N" by (simp add: N_def)
  have p: "pow2 e = 1 / of_int N"
    using e by (simp add: pow2_def N_def)
  have arg: "x / pow2 e = x * of_int N"
    by (simp add: p)
  have "0 \<le> x * of_int N" using assms(1) N by simp
  then have m0: "0 \<le> m"
    using round_half_even_ge [of 0 "x / pow2 e"] by (simp add: m_def arg)
  have "x * of_int N \<le> of_int N"
    using assms(2) N by (simp add: mult_le_cancel_right1)
  then have mN: "m \<le> N"
    using round_half_even_le [of "x / pow2 e" N] by (simp add: m_def arg)
  have r: "round_binary64 x = Finite (of_int m * pow2 e)"
    using False pos e by (simp add: round_binary64_def Let_def e_def [symmetric] m_def [symmetric])
  have "0 \<le> (of_int m :: rat) * pow2 e"
    using m0 N by (simp add: p)
  moreover have "(of_int m :: rat) * pow2 e \<le> 1"
    using mN N by (simp add: p divide_le_eq)
  ultimately show ?thesis using r by simp
qed

subsection \<open>The float model: exponent, mantissa and examples\<close>

text \<open>
  \<open>ilog2\<close> is the binary exponent of its argument, the mantissa that \<open>round_binary64\<close>
  rounds has 53 bits, and rounding to an integer moves a value by at most one half.  The
  examples are values that CPython gives for the same inputs.
\<close>

lemma pow2_powi: "pow2 k = 2 powi k"
  by (simp add: pow2_def power_int_def power_one_over inverse_eq_divide)

lemma bitlen_pos: "0 < n \<Longrightarrow> 1 \<le> bitlen n"
  using bitlen_nonneg [of "n div 2"] by (simp add: bitlen.simps [of n])

lemma bitlen_bounds: "0 < n \<Longrightarrow> 2 ^ nat (bitlen n - 1) \<le> n \<and> n < 2 ^ nat (bitlen n)"
proof (induction n rule: bitlen.induct)
  case (1 n)
  then have pos: "\<not> n \<le> 0" by simp
  have unfold: "bitlen n = 1 + bitlen (n div 2)"
    using pos by (simp add: bitlen.simps [of n])
  show ?case
  proof (cases "n = 1")
    case True
    then show ?thesis by (simp add: bitlen.simps [of 1] bitlen.simps [of 0])
  next
    case False
    with "1.prems" have half: "0 < n div 2" by simp
    define b where "b = bitlen (n div 2)"
    from "1.IH" [OF pos half] have lo: "2 ^ nat (b - 1) \<le> n div 2" and hi: "n div 2 < 2 ^ nat b"
      by (simp_all add: b_def)
    have b: "1 \<le> b" using bitlen_pos [OF half] by (simp add: b_def)
    then have step: "(2::int) ^ nat b = 2 * 2 ^ nat (b - 1)"
      by (metis Suc_nat_eq_nat_zadd1 add.commute diff_add_cancel diff_ge_0_iff_ge power_Suc)
    have "2 ^ nat b \<le> n" using lo step by simp
    moreover have "n < 2 * 2 ^ nat b" using hi by simp
    moreover have "nat (1 + b) = Suc (nat b)" using b by simp
    ultimately show ?thesis
      by (simp add: unfold b_def [symmetric])
  qed
qed

lemma of_int_pow2: "0 \<le> j \<Longrightarrow> (of_int (2 ^ nat j) :: rat) = 2 powi j"
  by (simp add: power_int_def)


lemma bitlen_rat_bounds:
  assumes "0 < n"
  shows "(2::rat) powi (bitlen n - 1) \<le> of_int n \<and> of_int n < (2::rat) powi bitlen n"
proof -
  from bitlen_bounds [OF assms]
  have "(of_int (2 ^ nat (bitlen n - 1)) :: rat) \<le> of_int n"
    and "(of_int n :: rat) < of_int (2 ^ nat (bitlen n))"
    by (simp_all only: of_int_le_iff of_int_less_iff)
  moreover have "0 \<le> bitlen n - 1" "0 \<le> bitlen n"
    using bitlen_pos [OF assms] by simp_all
  ultimately show ?thesis
    by (simp only: of_int_pow2)
qed

lemma ilog2_bounds:
  assumes "0 < x"
  shows "pow2 (ilog2 x) \<le> x \<and> x < pow2 (ilog2 x + 1)"
proof -
  obtain n d where q: "quotient_of x = (n, d)" by (cases "quotient_of x")
  then have d: "0 < d" by (rule quotient_of_denom_pos)
  from q have x: "x = of_int n / of_int d" by (rule quotient_of_div)
  with assms d have n: "0 < n" by (simp add: zero_less_divide_iff)
  define k where "k = bitlen n - bitlen d"
  define N :: rat where "N = of_int n"
  define D :: rat where "D = of_int d"
  have N: "0 < N" and D: "0 < D" using n d by (simp_all add: N_def D_def)
  note nb = bitlen_rat_bounds [OF n, folded N_def]
  note db = bitlen_rat_bounds [OF d, folded D_def]
  have p: "0 < (2::rat) powi j" for j by simp
  have "N / D < 2 powi bitlen n / 2 powi (bitlen d - 1)"
    using nb db N D p by (intro frac_less) simp_all
  also have "\<dots> = 2 powi (k + 1)"
    using power_int_diff [of "2::rat" "bitlen n" "bitlen d - 1"]
    by (simp add: k_def algebra_simps)
  finally have up: "x < pow2 (k + 1)"
    by (simp only: pow2_powi x N_def D_def)
  have "2 powi (bitlen n - 1) / 2 powi bitlen d < N / D"
    using nb db N D p [of "bitlen n - 1"] by (intro frac_less2) simp_all
  moreover have "2 powi (bitlen n - 1) / 2 powi bitlen d = (2::rat) powi (k - 1)"
    using power_int_diff [of "2::rat" "bitlen n - 1" "bitlen d"]
    by (simp add: k_def algebra_simps)
  ultimately have low: "pow2 (k - 1) < x"
    by (simp only: pow2_powi x N_def D_def)
  have il: "ilog2 x = (if pow2 k \<le> x then k else k - 1)"
    using q by (simp add: ilog2_def Let_def k_def)
  show ?thesis
    using up low by (simp add: il)
qed


lemma round_half_even_nearest: "\<bar>of_int (round_half_even x) - x\<bar> \<le> 1 / 2"
proof -
  have "of_int \<lfloor>x\<rfloor> \<le> x" "x < of_int \<lfloor>x\<rfloor> + 1"
    by linarith+
  then show ?thesis
    by (auto simp add: round_half_even_def Let_def abs_le_iff)
qed

lemma round_half_even_tie:
  assumes "\<bar>of_int (round_half_even x) - x\<bar> = 1 / 2"
  shows "even (round_half_even x)"
proof -
  define f where "f = \<lfloor>x\<rfloor>"
  define r where "r = x - of_int f"
  have r: "0 \<le> r" "r < 1"
    unfolding r_def f_def by linarith+
  have x: "x = of_int f + r"
    by (simp add: r_def)
  have rhe: "round_half_even x =
      (if r < 1 / 2 then f else if 1 / 2 < r then f + 1 else if even f then f else f + 1)"
    by (simp add: round_half_even_def Let_def f_def r_def)
  consider (low) "r < 1 / 2" | (high) "1 / 2 < r" | (half) "r = 1 / 2"
    by linarith
  then show ?thesis
  proof cases
    case low
    then have "round_half_even x = f"
      by (simp add: rhe)
    with assms have "\<bar>- r\<bar> = 1 / 2"
      by (simp add: x)
    with r low have False
      by linarith
    then show ?thesis ..
  next
    case high
    then have "round_half_even x = f + 1"
      by (simp add: rhe)
    with assms have "\<bar>1 - r\<bar> = 1 / 2"
      by (simp add: x)
    with r high have False
      by linarith
    then show ?thesis ..
  next
    case half
    then show ?thesis
      by (simp add: rhe)
  qed
qed

lemma mantissa_range:
  assumes "0 < x"
  shows "2 ^ 52 \<le> round_half_even (x / pow2 (ilog2 x - 52)) \<and>
         round_half_even (x / pow2 (ilog2 x - 52)) \<le> 2 ^ 53"
proof -
  define l where "l = ilog2 x"
  have p: "0 < (2::rat) powi j" for j by simp
  from ilog2_bounds [OF assms] have lo: "2 powi l \<le> x" and hi: "x < 2 powi (l + 1)"
    by (simp_all add: pow2_powi l_def)
  have "2 powi l / 2 powi (l - 52) \<le> x / 2 powi (l - 52)"
    using lo p [of "l - 52"] by (simp add: divide_right_mono)
  moreover have "2 powi l / 2 powi (l - 52) = (2::rat) powi 52"
    using power_int_diff [of "2::rat" l "l - 52"] by simp
  ultimately have a: "of_int (2 ^ 52) \<le> x / pow2 (l - 52)"
    by (simp add: pow2_powi)
  have "x / 2 powi (l - 52) \<le> 2 powi (l + 1) / 2 powi (l - 52)"
    using hi p [of "l - 52"] by (simp add: divide_right_mono)
  moreover have "2 powi (l + 1) / 2 powi (l - 52) = (2::rat) powi 53"
    using power_int_diff [of "2::rat" "l + 1" "l - 52"] by simp
  ultimately have b: "x / pow2 (l - 52) \<le> of_int (2 ^ 53)"
    by (simp add: pow2_powi)
  from round_half_even_ge [OF a] round_half_even_le [OF b] show ?thesis
    by (simp add: l_def)
qed

lemma float_examples:
  "float_of_str ''0.1'' = Some (Finite (3602879701896397 / 36028797018963968))"
  "float_of_str '' 1_0.5e1 '' = Some (Finite 105)"
  "float_of_str ''-Infinity'' = Some NegInf"
  "float_of_str ''nan'' = Some NaN"
  "float_of_str ''1__0'' = None"
  "float_of_str ''0x10'' = None"
  "float_of_str [] = None"
  "round_2 (Finite (1 / 8)) = Finite (1080863910568919 / 9007199254740992)"
  "float_mul_100 (round_2 (float_div_100 (Finite 7))) = Finite (7881299347898369 / 1125899906842624)"
  by code_simp+


section \<open>Properties of the runtime handlers\<close>

lemma grades_append [simp]: "grades (xs @ ys) = grades xs @ grades ys"
  by (induction xs rule: grades.induct) simp_all

lemma completions_append [simp]: "completions (xs @ ys) = completions xs @ completions ys"
  by (induction xs rule: completions.induct) simp_all

lemma publish_grade_fields [simp]:
  "lesson_status (publish_grade cfg self) = lesson_status self"
  "success_status (publish_grade cfg self) = success_status self"
  "lesson_score (publish_grade cfg self) = lesson_score self"
  "data_scorm (publish_grade cfg self) = data_scorm self"
  "version_scorm (publish_grade cfg self) = version_scorm self"
  "weight (publish_grade cfg self) = weight self"
  "has_score (publish_grade cfg self) = has_score self"
  by (simp_all add: publish_grade_def)

lemma publish_grade_completions [simp]:
  "completions (events (publish_grade cfg self)) = completions (events self)"
  by (simp add: publish_grade_def)

lemma emit_completion_fields [simp]:
  "lesson_status (emit_completion self c) = lesson_status self"
  "success_status (emit_completion self c) = success_status self"
  "lesson_score (emit_completion self c) = lesson_score self"
  "data_scorm (emit_completion self c) = data_scorm self"
  "version_scorm (emit_completion self c) = version_scorm self"
  "weight (emit_completion self c) = weight self"
  "has_score (emit_completion self c) = has_score self"
  "grades (events (emit_completion self c)) = grades (events self)"
  "completions (events (emit_completion self c)) = completions (events self) @ [c]"
  by (simp_all add: emit_completion_def)

text \<open>
  C4.  With the override flag off, \<open>publish_grade\<close> sends one grade event and changes
  nothing else: its value is 0 when the lesson status is \<open>failed\<close>, or the version is
  \<open>SCORM_2004\<close> and the success status is \<open>failed\<close> or \<open>unknown\<close>, whatever the stored
  score; in every other case it is the stored score.  The maximum is the weight.
\<close>

theorem publish_grade_policy:
  assumes "\<not> ENABLE_PUBLISH_FAILED_SCORM_SCORE cfg"
  shows "publish_grade cfg self =
           self\<lparr>events := events self @
             [Grade (if lesson_status self = Some ''failed'' \<or>
                        (version_scorm self = ''SCORM_2004'' \<and>
                         (success_status self = Some ''failed'' \<or>
                          success_status self = Some ''unknown''))
                     then Finite 0 else lesson_score self)
                    (weight self)]\<rparr>"
  using assms by (auto simp add: publish_grade_def)

theorem publish_grade_policy_witness:
  "\<not> ENABLE_PUBLISH_FAILED_SCORM_SCORE default_settings \<and>
   events (publish_grade default_settings
             (demo_block\<lparr>lesson_status := Some ''failed'', lesson_score := Finite (87 / 100)\<rparr>)) =
     [Grade (Finite 0) (Finite 1)] \<and>
   events (publish_grade default_settings
             (demo_block\<lparr>lesson_status := Some ''passed'', lesson_score := Finite (87 / 100)\<rparr>)) =
     [Grade (Finite (87 / 100)) (Finite 1)]"
  using publish_grade_policy [of default_settings
      "demo_block\<lparr>lesson_status := Some ''failed'', lesson_score := Finite (87 / 100)\<rparr>"]
    publish_grade_policy [of default_settings
      "demo_block\<lparr>lesson_status := Some ''passed'', lesson_score := Finite (87 / 100)\<rparr>"]
  by (simp add: default_settings_def demo_block_def new_block_def)


subsection \<open>The branches of a set call\<close>

lemma raw_not_lesson: "raw_score_key n \<Longrightarrow> \<not> lesson_status_key n"
  by (auto simp add: raw_score_key_def lesson_status_key_def)

lemma raw_not_success: "raw_score_key n \<Longrightarrow> n \<noteq> Some ''cmi.success_status''"
  by (auto simp add: raw_score_key_def)

lemma lesson_not_success: "lesson_status_key n \<Longrightarrow> n \<noteq> Some ''cmi.success_status''"
  by (auto simp add: lesson_status_key_def)

lemma success_not_lesson: "\<not> lesson_status_key (Some ''cmi.success_status'')"
  by (simp add: lesson_status_key_def)

lemma body_lesson_status:
  "lesson_status_key (data ''name'') \<Longrightarrow>
   set_value_body cfg self data context =
     (if has_score self \<and> data ''value'' \<in> set [Some ''completed'', Some ''failed'', Some ''passed'']
      then publish_grade cfg (self\<lparr>lesson_status := data ''value''\<rparr>)
      else self\<lparr>lesson_status := data ''value''\<rparr>,
      Inr (if has_score self \<and>
              data ''value'' \<in> set [Some ''completed'', Some ''failed'', Some ''passed'']
           then context(''lesson_score'' \<mapsto> VFloat (lesson_score self)) else context))"
  unfolding set_value_body_def lesson_status_key_def Let_def by (simp; blast)

lemma body_success_status:
  "data ''name'' = Some ''cmi.success_status'' \<Longrightarrow>
   set_value_body cfg self data context =
     (if has_score self
      then publish_grade cfg
             (self\<lparr>success_status := data ''value'',
                   lesson_score := (if data ''value'' = Some ''unknown'' then Finite 0
                                    else lesson_score self)\<rparr>)
      else self\<lparr>success_status := data ''value''\<rparr>,
      Inr (if has_score self
           then context(''lesson_score'' \<mapsto>
                  VFloat (if data ''value'' = Some ''unknown'' then Finite 0
                          else lesson_score self))
           else context))"
  unfolding set_value_body_def Let_def by simp

lemma body_raw_score:
  "raw_score_key (data ''name'') \<Longrightarrow> has_score self \<Longrightarrow>
   set_value_body cfg self data context =
     (case float_of_value (data ''value'') of
        None \<Rightarrow> (self, Inl ValueError)
      | Some x \<Rightarrow>
          (publish_grade cfg (self\<lparr>lesson_score := round_2 (float_div_100 x)\<rparr>),
           Inr (context(''lesson_score'' \<mapsto> VFloat (round_2 (float_div_100 x))))))"
  using raw_not_lesson [of "data ''name''"] raw_not_success [of "data ''name''"]
  unfolding set_value_body_def Let_def lesson_status_key_def raw_score_key_def
  by (simp split: option.split)

lemma body_free_form:
  "\<not> lesson_status_key (data ''name'') \<Longrightarrow> data ''name'' \<noteq> Some ''cmi.success_status'' \<Longrightarrow>
   \<not> (raw_score_key (data ''name'') \<and> has_score self) \<Longrightarrow>
   set_value_body cfg self data context =
     (self\<lparr>data_scorm := (data_scorm self)(data ''name'' \<mapsto> get_or_empty (data ''value''))\<rparr>,
      Inr context)"
  unfolding set_value_body_def Let_def lesson_status_key_def raw_score_key_def
  by (simp; blast)

lemma scorm_set_value_returns:
  "set_value_body cfg self data [''result'' \<mapsto> VStr ''success''] = (s1, Inr ctx) \<Longrightarrow>
   scorm_set_value cfg self data =
     (if get_completion_status s1 \<in> set [Some ''passed'', Some ''failed'', Some ''completed'']
      then emit_completion s1 (Finite 1) else s1,
      Inr (ctx(''completion_status'' \<mapsto> str_or_none (get_completion_status s1))))"
  by (simp add: scorm_set_value_def Let_def)

lemma scorm_set_value_raises:
  "set_value_body cfg self data [''result'' \<mapsto> VStr ''success''] = (s1, Inl e) \<Longrightarrow>
   scorm_set_value cfg self data = (s1, Inl e)"
  by (simp add: scorm_set_value_def)

text \<open>
  Every set call falls in one of five cases: a lesson-status key, the success-status
  key, a raw-score key on a scored block with a value that is a number or not, and
  everything else.
\<close>

lemma set_value_cases:
  obtains
    (lesson) "lesson_status_key (data ''name'')"
  | (success) "data ''name'' = Some ''cmi.success_status''"
  | (raw) x where "raw_score_key (data ''name'')" "has_score self"
      "float_of_value (data ''value'') = Some x"
  | (raise) "raw_score_key (data ''name'')" "has_score self"
      "float_of_value (data ''value'') = None"
  | (other) "\<not> lesson_status_key (data ''name'')" "data ''name'' \<noteq> Some ''cmi.success_status''"
      "\<not> (raw_score_key (data ''name'') \<and> has_score self)"
  by (cases "float_of_value (data ''value'')") blast+

lemma scorm_set_value_raw:
  assumes "raw_score_key (data ''name'')" "has_score self"
    "float_of_value (data ''value'') = Some x"
  shows "scorm_set_value cfg self data =
     (let s1 = publish_grade cfg (self\<lparr>lesson_score := round_2 (float_div_100 x)\<rparr>)
      in (if get_completion_status s1 \<in> set [Some ''passed'', Some ''failed'', Some ''completed'']
          then emit_completion s1 (Finite 1) else s1,
          Inr [''result'' \<mapsto> VStr ''success'',
               ''lesson_score'' \<mapsto> VFloat (round_2 (float_div_100 x)),
               ''completion_status'' \<mapsto> str_or_none (get_completion_status s1)]))"
proof -
  have "set_value_body cfg self data [''result'' \<mapsto> VStr ''success''] =
      (publish_grade cfg (self\<lparr>lesson_score := round_2 (float_div_100 x)\<rparr>),
       Inr [''result'' \<mapsto> VStr ''success'',
            ''lesson_score'' \<mapsto> VFloat (round_2 (float_div_100 x))])"
    using assms by (simp add: body_raw_score)
  from scorm_set_value_returns [OF this] show ?thesis
    by (simp add: Let_def)
qed

lemma scorm_set_value_lesson_status:
  "lesson_status (fst (scorm_set_value cfg self data)) =
     (if lesson_status_key (data ''name'') then data ''value'' else lesson_status self)"
proof (cases rule: set_value_cases [where data = data and self = self])
  case lesson
  note b = scorm_set_value_returns [OF body_lesson_status [where data = data, OF lesson]]
  show ?thesis
    using lesson by (simp add: b)
next
  case success
  note b = scorm_set_value_returns [OF body_success_status [where data = data, OF success]]
  show ?thesis
    using success success_not_lesson by (simp add: b)
next
  case (raw x)
  then show ?thesis
    by (simp add: scorm_set_value_raw raw_not_lesson Let_def)
next
  case raise
  then have "set_value_body cfg self data [''result'' \<mapsto> VStr ''success''] = (self, Inl ValueError)"
    by (simp add: body_raw_score)
  from scorm_set_value_raises [OF this] raise show ?thesis
    by (simp add: raw_not_lesson)
next
  case other
  then have "set_value_body cfg self data [''result'' \<mapsto> VStr ''success''] =
      (self\<lparr>data_scorm := (data_scorm self)(data ''name'' \<mapsto> get_or_empty (data ''value''))\<rparr>,
       Inr [''result'' \<mapsto> VStr ''success''])"
    by (rule body_free_form)
  from scorm_set_value_returns [OF this] other show ?thesis
    by simp
qed

lemma scorm_set_value_success_status:
  "success_status (fst (scorm_set_value cfg self data)) =
     (if data ''name'' = Some ''cmi.success_status'' then data ''value''
      else success_status self)"
proof (cases rule: set_value_cases [where data = data and self = self])
  case lesson
  note b = scorm_set_value_returns [OF body_lesson_status [where data = data, OF lesson]]
  show ?thesis
    using lesson_not_success [OF lesson] by (simp add: b)
next
  case success
  note b = scorm_set_value_returns [OF body_success_status [where data = data, OF success]]
  show ?thesis
    using success by (simp add: b)
next
  case (raw x)
  then show ?thesis
    by (simp add: scorm_set_value_raw raw_not_success Let_def)
next
  case raise
  then have "set_value_body cfg self data [''result'' \<mapsto> VStr ''success''] = (self, Inl ValueError)"
    by (simp add: body_raw_score)
  from scorm_set_value_raises [OF this] raise show ?thesis
    by (simp add: raw_not_success)
next
  case other
  then have "set_value_body cfg self data [''result'' \<mapsto> VStr ''success''] =
      (self\<lparr>data_scorm := (data_scorm self)(data ''name'' \<mapsto> get_or_empty (data ''value''))\<rparr>,
       Inr [''result'' \<mapsto> VStr ''success''])"
    by (rule body_free_form)
  from scorm_set_value_returns [OF this] other show ?thesis
    by simp
qed

lemma scorm_set_value_fixed:
  "version_scorm (fst (scorm_set_value cfg self data)) = version_scorm self \<and>
   weight (fst (scorm_set_value cfg self data)) = weight self \<and>
   has_score (fst (scorm_set_value cfg self data)) = has_score self"
proof (cases rule: set_value_cases [where data = data and self = self])
  case lesson
  note b = scorm_set_value_returns [OF body_lesson_status [where data = data, OF lesson]]
  show ?thesis
    by (simp add: b)
next
  case success
  note b = scorm_set_value_returns [OF body_success_status [where data = data, OF success]]
  show ?thesis
    by (simp add: b)
next
  case (raw x)
  then show ?thesis
    by (simp add: scorm_set_value_raw Let_def)
next
  case raise
  then have "set_value_body cfg self data [''result'' \<mapsto> VStr ''success''] = (self, Inl ValueError)"
    by (simp add: body_raw_score)
  from scorm_set_value_raises [OF this] show ?thesis
    by simp
next
  case other
  then have "set_value_body cfg self data [''result'' \<mapsto> VStr ''success''] =
      (self\<lparr>data_scorm := (data_scorm self)(data ''name'' \<mapsto> get_or_empty (data ''value''))\<rparr>,
       Inr [''result'' \<mapsto> VStr ''success''])"
    by (rule body_free_form)
  from scorm_set_value_returns [OF this] show ?thesis
    by simp
qed


subsection \<open>Set calls on the raw score\<close>

text \<open>
  C10.  A set call on a raw-score key of a scored block whose value is a string that
  \<^verbatim>\<open>float\<close> rejects fails with \<^verbatim>\<open>ValueError\<close> and leaves the block as it was: no field
  changes and nothing is sent to the runtime.
\<close>

theorem set_raw_score_not_a_number:
  assumes "has_score self"
    and "raw_score_key (data ''name'')"
    and "data ''value'' = Some v"
    and "float_of_str v = None"
  shows "scorm_set_value cfg self data = (self, Inl ValueError)"
proof -
  have "float_of_value (data ''value'') = None"
    using assms(3,4) by (simp add: float_of_value_def)
  then have "set_value_body cfg self data [''result'' \<mapsto> VStr ''success''] = (self, Inl ValueError)"
    using assms(1,2) by (simp add: body_raw_score)
  then show ?thesis
    by (rule scorm_set_value_raises)
qed

theorem set_raw_score_not_a_number_witness:
  "has_score demo_block \<and>
   raw_score_key ([''name'' \<mapsto> ''cmi.core.score.raw'', ''value'' \<mapsto> ''abc''] ''name'') \<and>
   float_of_str ''abc'' = None \<and>
   scorm_set_value default_settings demo_block
     [''name'' \<mapsto> ''cmi.core.score.raw'', ''value'' \<mapsto> ''abc''] =
     (demo_block, Inl ValueError)"
proof -
  have h1: "has_score demo_block"
    by (simp add: demo_block_def new_block_def)
  have h2: "raw_score_key ([''name'' \<mapsto> ''cmi.core.score.raw'', ''value'' \<mapsto> ''abc''] ''name'')"
    by (simp add: raw_score_key_def)
  have h3: "[''name'' \<mapsto> ''cmi.core.score.raw'', ''value'' \<mapsto> ''abc''] ''value'' = Some ''abc''"
    by simp
  have h4: "float_of_str ''abc'' = None"
    by code_simp
  show ?thesis
    using h1 h2 h4
      set_raw_score_not_a_number [where self = demo_block and cfg = default_settings
        and data = "[''name'' \<mapsto> ''cmi.core.score.raw'', ''value'' \<mapsto> ''abc'']"
        and v = "''abc''", OF h1 h2 h3 h4]
    by blast
qed

text \<open>
  C2, as the code has it.  When the block is not scored, a set call on a raw-score key
  takes the last branch: the value goes into the free-form mapping under that key, as
  it is.  The two statuses and the stored score keep their values and no grade event
  is published.
\<close>

theorem set_raw_score_unscored:
  assumes "\<not> has_score self"
    and "raw_score_key (data ''name'')"
  shows "lesson_status (fst (scorm_set_value cfg self data)) = lesson_status self \<and>
         success_status (fst (scorm_set_value cfg self data)) = success_status self \<and>
         lesson_score (fst (scorm_set_value cfg self data)) = lesson_score self \<and>
         grades (events (fst (scorm_set_value cfg self data))) = grades (events self) \<and>
         data_scorm (fst (scorm_set_value cfg self data)) =
           (data_scorm self)(data ''name'' \<mapsto> get_or_empty (data ''value''))"
proof -
  have "set_value_body cfg self data [''result'' \<mapsto> VStr ''success''] =
      (self\<lparr>data_scorm := (data_scorm self)(data ''name'' \<mapsto> get_or_empty (data ''value''))\<rparr>,
       Inr [''result'' \<mapsto> VStr ''success''])"
    using assms raw_not_lesson [OF assms(2)] raw_not_success [OF assms(2)]
    by (simp add: body_free_form)
  from scorm_set_value_returns [OF this] show ?thesis
    by simp
qed

theorem set_raw_score_unscored_witness:
  "\<not> has_score (demo_block\<lparr>has_score := False\<rparr>) \<and>
   raw_score_key ([''name'' \<mapsto> ''cmi.score.raw'', ''value'' \<mapsto> ''50''] ''name'') \<and>
   lesson_score (fst (scorm_set_value default_settings (demo_block\<lparr>has_score := False\<rparr>)
      [''name'' \<mapsto> ''cmi.score.raw'', ''value'' \<mapsto> ''50''])) = Finite 0 \<and>
   grades (events (fst (scorm_set_value default_settings (demo_block\<lparr>has_score := False\<rparr>)
      [''name'' \<mapsto> ''cmi.score.raw'', ''value'' \<mapsto> ''50'']))) = []"
proof -
  have h1: "\<not> has_score (demo_block\<lparr>has_score := False\<rparr>)"
    by simp
  have h2: "raw_score_key ([''name'' \<mapsto> ''cmi.score.raw'', ''value'' \<mapsto> ''50''] ''name'')"
    by (simp add: raw_score_key_def)
  show ?thesis
    using h1 h2
      set_raw_score_unscored [where self = "demo_block\<lparr>has_score := False\<rparr>"
        and cfg = default_settings
        and data = "[''name'' \<mapsto> ''cmi.score.raw'', ''value'' \<mapsto> ''50'']", OF h1 h2]
    by (simp add: demo_block_def new_block_def)
qed

theorem set_raw_score_unscored_changes_mapping:
  "data_scorm (demo_block\<lparr>has_score := False\<rparr>) (Some ''cmi.score.raw'') = None \<and>
   data_scorm (fst (scorm_set_value default_settings (demo_block\<lparr>has_score := False\<rparr>)
      [''name'' \<mapsto> ''cmi.score.raw'', ''value'' \<mapsto> ''50''])) (Some ''cmi.score.raw'') = Some ''50''"
  by (simp add: scorm_set_value_def set_value_body_def demo_block_def new_block_def
      get_or_empty_def get_completion_status_def Let_def)

lemma get_raw_score:
  "raw_score_key (query ''name'') \<Longrightarrow>
   scorm_get_value self query = [''value'' \<mapsto> VFloat (float_mul_100 (lesson_score self))]"
  using raw_not_lesson [of "query ''name''"] raw_not_success [of "query ''name''"]
  unfolding scorm_get_value_def Let_def lesson_status_key_def raw_score_key_def
  by simp

lemma float_of_str_87: "float_of_str ''87'' = Some (Finite 87)"
  by code_simp

lemma round_trip_87: "float_mul_100 (round_2 (float_div_100 (Finite 87))) = Finite 87"
  by code_simp

lemma float_of_str_87_456:
  "float_of_str ''87.456'' = Some (Finite (6154168890801783 / 70368744177664))"
  by code_simp

lemma div_100_87_456:
  "float_div_100 (Finite (6154168890801783 / 70368744177664)) =
     Finite (3938668090113141 / 4503599627370496)"
  by code_simp

lemma round_2_87_456:
  "round_2 (Finite (3938668090113141 / 4503599627370496)) =
     Finite (7836263351624663 / 9007199254740992)"
  by code_simp

lemma mul_100_87_456:
  "float_mul_100 (Finite (7836263351624663 / 9007199254740992)) = Finite 87"
  by code_simp

text \<open>
  What \<^verbatim>\<open>round(y, 2)\<close> is, said without \<open>round_2\<close>: the float nearest to a decimal \<open>k / 100\<close>
  that lies within half a hundredth of \<open>y\<close>, with \<open>k\<close> even when \<open>y\<close> is halfway between
  two such decimals.
\<close>

lemma round_2_two_decimals:
  "\<exists>k. round_2 (Finite q) = round_binary64 (of_int k / 100) \<and>
       \<bar>of_int k / 100 - q\<bar> \<le> 1 / 200 \<and>
       (\<bar>of_int k / 100 - q\<bar> = 1 / 200 \<longrightarrow> even k)"
proof -
  define k where "k = round_half_even (q * 100)"
  have near: "\<bar>of_int k - q * 100\<bar> \<le> 1 / 2"
    unfolding k_def by (rule round_half_even_nearest)
  have tie: "even k" if "\<bar>of_int k - q * 100\<bar> = 1 / 2"
    using that unfolding k_def by (rule round_half_even_tie)
  have scale: "\<bar>of_int k / 100 - q\<bar> = \<bar>of_int k - q * 100\<bar> / 100"
  proof -
    have "of_int k / 100 - q = (of_int k - q * 100) / 100"
      by (simp add: field_simps)
    then show ?thesis
      by (simp only: abs_divide)
  qed
  have "round_2 (Finite q) = round_binary64 (of_int k / 100)"
    by (simp add: round_2_def k_def)
  moreover have "\<bar>of_int k / 100 - q\<bar> \<le> 1 / 200"
    using near by (simp add: scale)
  moreover have "even k" if "\<bar>of_int k / 100 - q\<bar> = 1 / 200"
    using that tie by (simp add: scale)
  ultimately show ?thesis
    by blast
qed

text \<open>
  C8.  On a scored block, a set call on a raw-score key whose value reads as the float
  \<open>x\<close> stores \<^verbatim>\<open>round(x / 100.0, 2)\<close>: when \<^verbatim>\<open>x / 100.0\<close> is the number \<open>q\<close>, the stored score
  is the float nearest to the two-place decimal nearest to \<open>q\<close> (ties to the even one).
  A get call on a raw-score key then answers the stored score times 100.  For the value
  \<^verbatim>\<open>87\<close> the answer is \<^verbatim>\<open>87.0\<close>; for \<^verbatim>\<open>87.456\<close> the stored score is \<^verbatim>\<open>0.87\<close> and the answer
  is \<^verbatim>\<open>87.0\<close> again.
\<close>

theorem raw_score_round_trip:
  assumes "has_score self"
    and "raw_score_key (data ''name'')"
    and "float_of_value (data ''value'') = Some x"
    and "raw_score_key (query ''name'')"
  shows "lesson_score (fst (scorm_set_value cfg self data)) = round_2 (float_div_100 x) \<and>
         scorm_get_value (fst (scorm_set_value cfg self data)) query =
           [''value'' \<mapsto> VFloat (float_mul_100 (round_2 (float_div_100 x)))] \<and>
         scorm_get_value (fst (scorm_set_value cfg self data)) query =
           [''value'' \<mapsto> VFloat (float_mul_100 (lesson_score (fst (scorm_set_value cfg self data))))] \<and>
         (\<forall>q. float_div_100 x = Finite q \<longrightarrow>
            (\<exists>k. lesson_score (fst (scorm_set_value cfg self data)) =
                   round_binary64 (of_int k / 100) \<and>
                 \<bar>of_int k / 100 - q\<bar> \<le> 1 / 200 \<and>
                 (\<bar>of_int k / 100 - q\<bar> = 1 / 200 \<longrightarrow> even k))) \<and>
         (data ''value'' = Some ''87'' \<longrightarrow>
          scorm_get_value (fst (scorm_set_value cfg self data)) query =
            [''value'' \<mapsto> VFloat (Finite 87)]) \<and>
         (data ''value'' = Some ''87.456'' \<longrightarrow>
          lesson_score (fst (scorm_set_value cfg self data)) =
            Finite (7836263351624663 / 9007199254740992) \<and>
          scorm_get_value (fst (scorm_set_value cfg self data)) query =
            [''value'' \<mapsto> VFloat (Finite 87)])"
proof -
  have score: "lesson_score (fst (scorm_set_value cfg self data)) = round_2 (float_div_100 x)"
    using assms(1-3) by (simp add: scorm_set_value_raw Let_def)
  have stored: "scorm_get_value (fst (scorm_set_value cfg self data)) query =
      [''value'' \<mapsto> VFloat (float_mul_100 (lesson_score (fst (scorm_set_value cfg self data))))]"
    using assms(4) by (rule get_raw_score)
  have answer: "scorm_get_value (fst (scorm_set_value cfg self data)) query =
      [''value'' \<mapsto> VFloat (float_mul_100 (round_2 (float_div_100 x)))]"
    using stored by (simp only: score)
  have decimals: "\<exists>k. lesson_score (fst (scorm_set_value cfg self data)) =
        round_binary64 (of_int k / 100) \<and>
      \<bar>of_int k / 100 - q\<bar> \<le> 1 / 200 \<and>
      (\<bar>of_int k / 100 - q\<bar> = 1 / 200 \<longrightarrow> even k)"
    if "float_div_100 x = Finite q" for q
    using round_2_two_decimals [of q] by (simp only: score that)
  have at_87: "scorm_get_value (fst (scorm_set_value cfg self data)) query =
      [''value'' \<mapsto> VFloat (Finite 87)]"
    if "data ''value'' = Some ''87''"
  proof -
    from that assms(3) have "x = Finite 87"
      by (simp add: float_of_value_def float_of_str_87)
    with answer show ?thesis
      by (simp add: round_trip_87)
  qed
  have at_87_456: "lesson_score (fst (scorm_set_value cfg self data)) =
        Finite (7836263351624663 / 9007199254740992) \<and>
      scorm_get_value (fst (scorm_set_value cfg self data)) query =
        [''value'' \<mapsto> VFloat (Finite 87)]"
    if "data ''value'' = Some ''87.456''"
  proof -
    from that assms(3) have "x = Finite (6154168890801783 / 70368744177664)"
      by (simp add: float_of_value_def float_of_str_87_456)
    then have "round_2 (float_div_100 x) = Finite (7836263351624663 / 9007199254740992)"
      by (simp only: div_100_87_456 round_2_87_456)
    with score answer show ?thesis
      by (simp only: mul_100_87_456)
  qed
  from score answer stored decimals at_87 at_87_456 show ?thesis
    by blast
qed

theorem raw_score_round_trip_witness:
  "has_score demo_block \<and>
   float_of_value ([''name'' \<mapsto> ''cmi.core.score.raw'', ''value'' \<mapsto> ''87.456''] ''value'') =
     Some (Finite (6154168890801783 / 70368744177664)) \<and>
   float_div_100 (Finite (6154168890801783 / 70368744177664)) =
     Finite (3938668090113141 / 4503599627370496) \<and>
   lesson_score (fst (scorm_set_value default_settings demo_block
       [''name'' \<mapsto> ''cmi.core.score.raw'', ''value'' \<mapsto> ''87.456''])) =
     Finite (7836263351624663 / 9007199254740992) \<and>
   scorm_get_value (fst (scorm_set_value default_settings demo_block
       [''name'' \<mapsto> ''cmi.core.score.raw'', ''value'' \<mapsto> ''87.456'']))
     [''name'' \<mapsto> ''cmi.score.raw''] = [''value'' \<mapsto> VFloat (Finite 87)]"
proof -
  have h1: "has_score demo_block"
    by (simp add: demo_block_def new_block_def)
  have h2: "raw_score_key ([''name'' \<mapsto> ''cmi.core.score.raw'', ''value'' \<mapsto> ''87.456''] ''name'')"
    by (simp add: raw_score_key_def)
  have h3: "float_of_value ([''name'' \<mapsto> ''cmi.core.score.raw'', ''value'' \<mapsto> ''87.456''] ''value'') =
      Some (Finite (6154168890801783 / 70368744177664))"
    by (simp add: float_of_value_def float_of_str_87_456)
  have h4: "raw_score_key ([''name'' \<mapsto> ''cmi.score.raw''] ''name'')"
    by (simp add: raw_score_key_def)
  have v: "[''name'' \<mapsto> ''cmi.core.score.raw'', ''value'' \<mapsto> ''87.456''] ''value'' = Some ''87.456''"
    by simp
  note t = raw_score_round_trip [where self = demo_block and cfg = default_settings
      and data = "[''name'' \<mapsto> ''cmi.core.score.raw'', ''value'' \<mapsto> ''87.456'']"
      and query = "[''name'' \<mapsto> ''cmi.score.raw'']"
      and x = "Finite (6154168890801783 / 70368744177664)", OF h1 h2 h3 h4]
  from t have "[''name'' \<mapsto> ''cmi.core.score.raw'', ''value'' \<mapsto> ''87.456''] ''value'' = Some ''87.456'' \<longrightarrow>
      lesson_score (fst (scorm_set_value default_settings demo_block
        [''name'' \<mapsto> ''cmi.core.score.raw'', ''value'' \<mapsto> ''87.456''])) =
        Finite (7836263351624663 / 9007199254740992) \<and>
      scorm_get_value (fst (scorm_set_value default_settings demo_block
        [''name'' \<mapsto> ''cmi.core.score.raw'', ''value'' \<mapsto> ''87.456'']))
        [''name'' \<mapsto> ''cmi.score.raw''] = [''value'' \<mapsto> VFloat (Finite 87)]"
    by blast
  with v h1 h3 div_100_87_456 show ?thesis
    by blast
qed


subsection \<open>Set calls on the statuses\<close>

lemma get_completion_status_emit [simp]:
  "get_completion_status (emit_completion self c) = get_completion_status self"
  by (simp add: get_completion_status_def)

lemma get_completion_status_publish [simp]:
  "get_completion_status (publish_grade cfg self) = get_completion_status self"
  by (simp add: get_completion_status_def)

lemma publish_grade_grades:
  "grades (events (publish_grade cfg self)) =
     grades (events self) @
       [(if \<not> ENABLE_PUBLISH_FAILED_SCORM_SCORE cfg \<and>
            (lesson_status self = Some ''failed'' \<or>
             (version_scorm self = ''SCORM_2004'' \<and>
              (success_status self = Some ''failed'' \<or> success_status self = Some ''unknown'')))
         then Finite 0 else lesson_score self, weight self)]"
  by (auto simp add: publish_grade_def)

text \<open>
  C5.  On a scored block, a set call on \<^verbatim>\<open>cmi.success_status\<close> stores the value; when
  the value is \<open>unknown\<close> the stored score becomes 0 first, whatever it was; then one grade
  event is published, from the block as it is by then.  So for \<open>unknown\<close> the grade
  published is 0.
\<close>

theorem set_success_status_scored:
  assumes "has_score self"
    and "data ''name'' = Some ''cmi.success_status''"
  shows "success_status (fst (scorm_set_value cfg self data)) = data ''value'' \<and>
         lesson_score (fst (scorm_set_value cfg self data)) =
           (if data ''value'' = Some ''unknown'' then Finite 0 else lesson_score self) \<and>
         grades (events (fst (scorm_set_value cfg self data))) =
           grades (events self) @
             [(if \<not> ENABLE_PUBLISH_FAILED_SCORM_SCORE cfg \<and>
                  (lesson_status self = Some ''failed'' \<or>
                   (version_scorm self = ''SCORM_2004'' \<and>
                    (data ''value'' = Some ''failed'' \<or> data ''value'' = Some ''unknown'')))
               then Finite 0
               else if data ''value'' = Some ''unknown'' then Finite 0 else lesson_score self,
               weight self)] \<and>
         (data ''value'' = Some ''unknown'' \<longrightarrow>
            grades (events (fst (scorm_set_value cfg self data))) =
              grades (events self) @ [(Finite 0, weight self)])"
proof -
  note b = scorm_set_value_returns [OF body_success_status [where data = data, OF assms(2)]]
  have status: "success_status (fst (scorm_set_value cfg self data)) = data ''value''"
    using assms(1) by (simp add: b)
  have score: "lesson_score (fst (scorm_set_value cfg self data)) =
      (if data ''value'' = Some ''unknown'' then Finite 0 else lesson_score self)"
    using assms(1) by (simp add: b)
  have grade: "grades (events (fst (scorm_set_value cfg self data))) =
      grades (events self) @
        [(if \<not> ENABLE_PUBLISH_FAILED_SCORM_SCORE cfg \<and>
             (lesson_status self = Some ''failed'' \<or>
              (version_scorm self = ''SCORM_2004'' \<and>
               (data ''value'' = Some ''failed'' \<or> data ''value'' = Some ''unknown'')))
          then Finite 0
          else if data ''value'' = Some ''unknown'' then Finite 0 else lesson_score self,
          weight self)]"
    using assms(1) by (simp add: b publish_grade_grades)
  from grade have "grades (events (fst (scorm_set_value cfg self data))) =
      grades (events self) @ [(Finite 0, weight self)]" if "data ''value'' = Some ''unknown''"
    using that by simp
  with status score grade show ?thesis
    by blast
qed

theorem set_success_status_scored_witness:
  "has_score (demo_block\<lparr>lesson_score := Finite (87 / 100)\<rparr>) \<and>
   lesson_score (fst (scorm_set_value default_settings
       (demo_block\<lparr>lesson_score := Finite (87 / 100)\<rparr>)
       [''name'' \<mapsto> ''cmi.success_status'', ''value'' \<mapsto> ''unknown''])) = Finite 0 \<and>
   grades (events (fst (scorm_set_value default_settings
       (demo_block\<lparr>lesson_score := Finite (87 / 100)\<rparr>)
       [''name'' \<mapsto> ''cmi.success_status'', ''value'' \<mapsto> ''unknown'']))) =
     [(Finite 0, Finite 1)]"
proof -
  have h1: "has_score (demo_block\<lparr>lesson_score := Finite (87 / 100)\<rparr>)"
    by (simp add: demo_block_def new_block_def)
  have h2: "[''name'' \<mapsto> ''cmi.success_status'', ''value'' \<mapsto> ''unknown''] ''name'' =
      Some ''cmi.success_status''"
    by simp
  note t = set_success_status_scored [where self = "demo_block\<lparr>lesson_score := Finite (87 / 100)\<rparr>"
      and cfg = default_settings
      and data = "[''name'' \<mapsto> ''cmi.success_status'', ''value'' \<mapsto> ''unknown'']", OF h1 h2]
  have score: "lesson_score (fst (scorm_set_value default_settings
       (demo_block\<lparr>lesson_score := Finite (87 / 100)\<rparr>)
       [''name'' \<mapsto> ''cmi.success_status'', ''value'' \<mapsto> ''unknown''])) = Finite 0"
    using t [THEN conjunct2, THEN conjunct1] by simp
  have grade: "grades (events (fst (scorm_set_value default_settings
       (demo_block\<lparr>lesson_score := Finite (87 / 100)\<rparr>)
       [''name'' \<mapsto> ''cmi.success_status'', ''value'' \<mapsto> ''unknown'']))) =
     [(Finite 0, Finite 1)]"
    using t [THEN conjunct2, THEN conjunct2, THEN conjunct2]
    by (simp add: demo_block_def new_block_def)
  show ?thesis
    using h1 score grade by blast
qed

text \<open>
  C6.  Every set call that returns (all but a raw-score set on a scored block with a
  value that is not a number) answers with \<^verbatim>\<open>completion_status\<close>: the success status of
  the block after the call when the version is \<open>SCORM_2004\<close> and that status is not
  \<open>unknown\<close>, its lesson status otherwise.  A completion event of value 1.0 is sent
  exactly when that status is \<open>passed\<close>, \<open>failed\<close> or \<open>completed\<close>.
\<close>

theorem set_value_completion:
  assumes "\<not> (raw_score_key (data ''name'') \<and> has_score self \<and>
              float_of_value (data ''value'') = None)"
  shows "\<exists>context.
           snd (scorm_set_value cfg self data) = Inr context \<and>
           context ''completion_status'' =
             Some (str_or_none (get_completion_status (fst (scorm_set_value cfg self data)))) \<and>
           get_completion_status (fst (scorm_set_value cfg self data)) =
             (if version_scorm (fst (scorm_set_value cfg self data)) = ''SCORM_2004'' \<and>
                 success_status (fst (scorm_set_value cfg self data)) \<noteq> Some ''unknown''
              then success_status (fst (scorm_set_value cfg self data))
              else lesson_status (fst (scorm_set_value cfg self data))) \<and>
           completions (events (fst (scorm_set_value cfg self data))) =
             completions (events self) @
               (if get_completion_status (fst (scorm_set_value cfg self data))
                     \<in> set [Some ''passed'', Some ''failed'', Some ''completed'']
                then [Finite 1] else [])"
proof -
  have "\<exists>s1 ctx. set_value_body cfg self data [''result'' \<mapsto> VStr ''success''] = (s1, Inr ctx) \<and>
      completions (events s1) = completions (events self)"
  proof (cases rule: set_value_cases [where data = data and self = self])
    case lesson
    then show ?thesis
      by (simp add: body_lesson_status [where data = data])
  next
    case success
    then show ?thesis
      by (simp add: body_success_status [where data = data])
  next
    case (raw x)
    then show ?thesis
      by (simp add: body_raw_score)
  next
    case raise
    with assms show ?thesis
      by simp
  next
    case other
    then show ?thesis
      by (simp add: body_free_form)
  qed
  then obtain s1 ctx where
    body: "set_value_body cfg self data [''result'' \<mapsto> VStr ''success''] = (s1, Inr ctx)"
    and quiet: "completions (events s1) = completions (events self)"
    by blast
  note r = scorm_set_value_returns [OF body]
  have cs: "get_completion_status (fst (scorm_set_value cfg self data)) = get_completion_status s1"
    by (simp add: r)
  have "snd (scorm_set_value cfg self data) =
      Inr (ctx(''completion_status'' \<mapsto> str_or_none (get_completion_status s1)))"
    by (simp add: r)
  moreover have "completions (events (fst (scorm_set_value cfg self data))) =
      completions (events self) @
        (if get_completion_status s1 \<in> set [Some ''passed'', Some ''failed'', Some ''completed'']
         then [Finite 1] else [])"
    using quiet by (simp add: r)
  moreover have "get_completion_status (fst (scorm_set_value cfg self data)) =
      (if version_scorm (fst (scorm_set_value cfg self data)) = ''SCORM_2004'' \<and>
          success_status (fst (scorm_set_value cfg self data)) \<noteq> Some ''unknown''
       then success_status (fst (scorm_set_value cfg self data))
       else lesson_status (fst (scorm_set_value cfg self data)))"
    by (simp add: get_completion_status_def)
  ultimately show ?thesis
    using cs by simp
qed

theorem set_value_completion_witness:
  "snd (scorm_set_value default_settings demo_block
         [''name'' \<mapsto> ''cmi.core.lesson_status'', ''value'' \<mapsto> ''completed'']) =
     Inr [''result'' \<mapsto> VStr ''success'', ''lesson_score'' \<mapsto> VFloat (Finite 0),
          ''completion_status'' \<mapsto> VStr ''completed''] \<and>
   events (fst (scorm_set_value default_settings demo_block
         [''name'' \<mapsto> ''cmi.core.lesson_status'', ''value'' \<mapsto> ''completed''])) =
     [Grade (Finite 0) (Finite 1), Completion (Finite 1)]"
proof -
  have h: "\<not> (raw_score_key ([''name'' \<mapsto> ''cmi.core.lesson_status'', ''value'' \<mapsto> ''completed''] ''name'') \<and>
      has_score demo_block \<and>
      float_of_value ([''name'' \<mapsto> ''cmi.core.lesson_status'', ''value'' \<mapsto> ''completed''] ''value'') = None)"
    by (simp add: raw_score_key_def)
  have "\<exists>context. snd (scorm_set_value default_settings demo_block
         [''name'' \<mapsto> ''cmi.core.lesson_status'', ''value'' \<mapsto> ''completed'']) = Inr context"
    using set_value_completion [where self = demo_block and cfg = default_settings
      and data = "[''name'' \<mapsto> ''cmi.core.lesson_status'', ''value'' \<mapsto> ''completed'']", OF h]
    by blast
  moreover have "scorm_set_value default_settings demo_block
         [''name'' \<mapsto> ''cmi.core.lesson_status'', ''value'' \<mapsto> ''completed''] =
     (demo_block\<lparr>lesson_status := Some ''completed'',
        events := [Grade (Finite 0) (Finite 1), Completion (Finite 1)]\<rparr>,
      Inr [''result'' \<mapsto> VStr ''success'', ''lesson_score'' \<mapsto> VFloat (Finite 0),
          ''completion_status'' \<mapsto> VStr ''completed''])"
    by (simp add: scorm_set_value_def set_value_body_def demo_block_def new_block_def
        default_settings_def publish_grade_def get_completion_status_def emit_completion_def
        str_or_none_def Let_def)
  ultimately show ?thesis
    by simp
qed

text \<open>
  C7, as the code has it.  The handler stores whatever string a set call gives for a
  status; it does not check it.  A block whose statuses are words of the vocabulary
  keeps that through any sequence of set calls whose status values are.
\<close>

theorem statuses_stay_in_vocabulary:
  assumes "lesson_status self \<in> set (map Some lesson_status_values)"
    and "success_status self \<in> set (map Some success_status_values)"
    and "list_all status_values_ok calls"
  shows "lesson_status (run_sets cfg self calls) \<in> set (map Some lesson_status_values) \<and>
         success_status (run_sets cfg self calls) \<in> set (map Some success_status_values)"
  using assms
proof (induction calls arbitrary: self)
  case Nil
  then show ?case by simp
next
  case (Cons data calls)
  from Cons.prems(3) have ok: "status_values_ok data" and rest: "list_all status_values_ok calls"
    by simp_all
  have l: "lesson_status (fst (scorm_set_value cfg self data)) \<in> set (map Some lesson_status_values)"
    using ok Cons.prems(1) unfolding scorm_set_value_lesson_status status_values_ok_def
    by (cases "lesson_status_key (data ''name'')") simp_all
  have s: "success_status (fst (scorm_set_value cfg self data)) \<in> set (map Some success_status_values)"
    using ok Cons.prems(2) unfolding scorm_set_value_success_status status_values_ok_def
    by (cases "data ''name'' = Some ''cmi.success_status''") simp_all
  from Cons.IH [OF l s rest] show ?case
    by simp
qed

theorem statuses_stay_in_vocabulary_witness:
  "lesson_status demo_block \<in> set (map Some lesson_status_values) \<and>
   success_status demo_block \<in> set (map Some success_status_values) \<and>
   list_all status_values_ok
     [[''name'' \<mapsto> ''cmi.core.lesson_status'', ''value'' \<mapsto> ''completed''],
      [''name'' \<mapsto> ''cmi.success_status'', ''value'' \<mapsto> ''passed'']] \<and>
   lesson_status (run_sets default_settings demo_block
     [[''name'' \<mapsto> ''cmi.core.lesson_status'', ''value'' \<mapsto> ''completed''],
      [''name'' \<mapsto> ''cmi.success_status'', ''value'' \<mapsto> ''passed'']])
     \<in> set (map Some lesson_status_values) \<and>
   success_status (run_sets default_settings demo_block
     [[''name'' \<mapsto> ''cmi.core.lesson_status'', ''value'' \<mapsto> ''completed''],
      [''name'' \<mapsto> ''cmi.success_status'', ''value'' \<mapsto> ''passed'']])
     \<in> set (map Some success_status_values)"
proof -
  have h1: "lesson_status demo_block \<in> set (map Some lesson_status_values)"
    by (simp add: demo_block_def new_block_def lesson_status_values_def)
  have h2: "success_status demo_block \<in> set (map Some success_status_values)"
    by (simp add: demo_block_def new_block_def success_status_values_def)
  have h3: "list_all status_values_ok
     [[''name'' \<mapsto> ''cmi.core.lesson_status'', ''value'' \<mapsto> ''completed''],
      [''name'' \<mapsto> ''cmi.success_status'', ''value'' \<mapsto> ''passed'']]"
    by (simp add: status_values_ok_def lesson_status_key_def lesson_status_values_def
        success_status_values_def)
  from statuses_stay_in_vocabulary [OF h1 h2 h3, of default_settings] h1 h2 h3
  show ?thesis
    by blast
qed

theorem lesson_status_outside_vocabulary:
  "lesson_status (run_sets default_settings demo_block
     [[''name'' \<mapsto> ''cmi.core.lesson_status'', ''value'' \<mapsto> ''banana'']]) = Some ''banana'' \<and>
   Some ''banana'' \<notin> set (map Some lesson_status_values)"
  by (simp add: scorm_set_value_lesson_status lesson_status_key_def lesson_status_values_def)


section \<open>Properties of the manifest reader\<close>

lemma re_match_1_2_iff:
  "re_match_1_2 s \<longleftrightarrow>
     (\<exists>c. c \<noteq> CHR 0x0A \<and> (s = [CHR ''1'', c, CHR ''2''] \<or> s = [CHR ''1'', c, CHR ''2'', CHR 0x0A]))"
  by (auto simp add: re_match_1_2_def split: list.splits)

lemma schemaversion_1_2:
  "version_scorm (fst (set_fields_xblock cfg self (manifest_with_version ''1.2''))) = ''SCORM_12''"
  by (simp add: set_fields_xblock_def read_manifest_def manifest_with_version_def
      default_namespace_def find_path_def re_match_1_2_def)

lemma schemaversion_2004:
  "version_scorm (fst (set_fields_xblock cfg self (manifest_with_version ''2004 3rd Edition''))) =
     ''SCORM_2004''"
  by (simp add: set_fields_xblock_def read_manifest_def manifest_with_version_def
      default_namespace_def find_path_def re_match_1_2_def)

lemma manifest_absent:
  "set_fields_xblock cfg self Absent =
     (self\<lparr>path_index_page := Some ''index.html'',
           scorm_file := Some (os_path_join (SCORM_URL cfg)
             (org (location self) @ ''/'' @ course (location self) @ ''/'' @
              block_id (location self) @ ''/'' @ ''index.html''))\<rparr>,
      Inr ())"
  by (simp add: set_fields_xblock_def read_manifest_def py_str_def)

text \<open>
  C1, at an input where the code departs from it.  The pattern \<^verbatim>\<open>^1.2$\<close> has its dot
  unescaped, so a schema version such as \<^verbatim>\<open>1x2\<close>, which is not the text \<^verbatim>\<open>1.2\<close>, is
  classified \<open>SCORM_12\<close> and not \<open>SCORM_2004\<close>.
\<close>

theorem schemaversion_1x2_is_scorm_12:
  "re_match_1_2 ''1x2'' \<and>
   snd (set_fields_xblock cfg self (manifest_with_version ''1x2'')) = Inr () \<and>
   version_scorm (fst (set_fields_xblock cfg self (manifest_with_version ''1x2''))) = ''SCORM_12''"
  by (simp add: set_fields_xblock_def read_manifest_def manifest_with_version_def
      default_namespace_def find_path_def re_match_1_2_def)

text \<open>
  An absent manifest leaves the version as it was: a block that held \<open>SCORM_2004\<close> from
  an earlier upload keeps it.
\<close>

lemma manifest_absent_keeps_version:
  "version_scorm (fst (set_fields_xblock cfg (self\<lparr>version_scorm := ''SCORM_2004''\<rparr>) Absent)) =
     ''SCORM_2004''"
  by (simp add: manifest_absent)

text \<open>
  C9, at an input where the code departs from it.  When the resource element has no
  \<^verbatim>\<open>href\<close> attribute, \<^verbatim>\<open>resource.get("href")\<close> is \<^verbatim>\<open>None\<close> and that is what the entry
  point becomes: the default \<^verbatim>\<open>index.html\<close> is lost, and the address of the package ends
  in \<^verbatim>\<open>None\<close>.
\<close>

theorem resource_without_href:
  "snd (set_fields_xblock default_settings demo_block manifest_without_href) = Inr () \<and>
   path_index_page (fst (set_fields_xblock default_settings demo_block manifest_without_href)) =
     None \<and>
   scorm_file (fst (set_fields_xblock default_settings demo_block manifest_without_href)) =
     Some ''/media/scormxblockmedia/edX/DemoX/scorm1/None''"
  by (simp add: set_fields_xblock_def read_manifest_def manifest_without_href_def
      default_namespace_def find_path_def re_match_1_2_def py_str_def os_path_join_def
      default_settings_def demo_block_def new_block_def demo_location_def)

lemma missing_href_gives_none:
  assumes "find_path tree_root ''resources'' ''resource'' = Some r"
    and "map_of (elem_attrib r) ''href'' = None"
  shows "path_index_page (fst (read_manifest self (Parsed [] tree_root))) = None"
  using assms
  by (simp add: read_manifest_def default_namespace_def Let_def split: option.split)


section \<open>The range of published grades\<close>

subsection \<open>Comparisons and scores between 0 and 1\<close>

lemma float_le_Finite [simp]: "float_le (Finite p) (Finite q) \<longleftrightarrow> p \<le> q"
  by (simp add: float_le_def)

lemma float_le_NaN [simp]: "\<not> float_le NaN y" "\<not> float_le x NaN"
  by (cases x; simp add: float_le_def)+

lemma float_le_from_Finite:
  "float_le (Finite p) x \<longleftrightarrow> x = PosInf \<or> (\<exists>q. x = Finite q \<and> p \<le> q)"
  by (cases x) (simp_all add: float_le_def)

lemma float_le_to_Finite:
  "float_le x (Finite p) \<longleftrightarrow> x = NegInf \<or> (\<exists>q. x = Finite q \<and> q \<le> p)"
  by (cases x) (simp_all add: float_le_def)

lemma unit_score_iff: "unit_score x \<longleftrightarrow> (\<exists>q. x = Finite q \<and> 0 \<le> q \<and> q \<le> 1)"
  by (cases x) (simp_all add: unit_score_def float_le_def)

text \<open>
  A grade in range has the weight as its maximum and a value that is a number, not
  negative and not above the weight (or both are the positive infinity, which Python
  compares as equal); a nan is never in range, neither as the value nor as the weight.
\<close>

lemma grade_in_range_iff:
  "grade_in_range w (v, m) \<longleftrightarrow>
     m = w \<and>
     ((\<exists>q. v = Finite q \<and> 0 \<le> q \<and> (w = PosInf \<or> (\<exists>r. w = Finite r \<and> q \<le> r))) \<or>
      (v = PosInf \<and> w = PosInf))"
  by (cases v; cases w) (auto simp add: grade_in_range_def float_le_def)

lemma grade_in_range_not_nan: "\<not> grade_in_range w (NaN, m)" "\<not> grade_in_range NaN (v, m)"
  by (simp_all add: grade_in_range_def)

lemma unit_score_round:
  assumes "float_le (Finite 0) x" and "float_le x (Finite 100)"
  shows "unit_score (round_2 (float_div_100 x))"
proof -
  from assms obtain q where x: "x = Finite q" and q: "0 \<le> q" "q \<le> 100"
    by (auto simp add: float_le_from_Finite float_le_to_Finite)
  from q have "0 \<le> q / 100" "q / 100 \<le> 1"
    by simp_all
  from round_binary64_unit [OF this] obtain r1
    where r1: "round_binary64 (q / 100) = Finite r1" "0 \<le> r1" "r1 \<le> 1"
    by blast
  have "0 \<le> round_half_even (r1 * 100)"
    using r1(2) round_half_even_ge [of 0 "r1 * 100"] by simp
  moreover have "round_half_even (r1 * 100) \<le> 100"
    using r1(3) round_half_even_le [of "r1 * 100" 100] by simp
  ultimately have "0 \<le> (of_int (round_half_even (r1 * 100)) :: rat) / 100"
    "(of_int (round_half_even (r1 * 100)) :: rat) / 100 \<le> 1"
    by simp_all
  from round_binary64_unit [OF this] obtain r2
    where "round_binary64 (of_int (round_half_even (r1 * 100)) / 100) = Finite r2"
      "0 \<le> r2" "r2 \<le> 1"
    by blast
  then show ?thesis
    using x r1(1) by (simp add: float_div_100_def round_2_def unit_score_iff)
qed

lemma grade_from_unit:
  "unit_score v \<Longrightarrow> float_le (Finite 1) w \<Longrightarrow> grade_in_range w (v, w)"
  by (auto simp add: unit_score_iff float_le_from_Finite grade_in_range_iff)

subsection \<open>Every handler keeps the scores in range\<close>

lemma session_in_range_start: "unit_score (lesson_score self) \<Longrightarrow> session_in_range self self"
  by (simp add: session_in_range_def)

lemma session_in_range_publish:
  assumes w: "float_le (Finite 1) (weight start)"
    and inv: "session_in_range start self"
  shows "session_in_range start (publish_grade cfg self)"
proof -
  from inv obtain new where new: "grades (events self) = grades (events start) @ new"
    "list_all (grade_in_range (weight start)) new"
    and weight: "weight self = weight start" and score: "unit_score (lesson_score self)"
    by (auto simp add: session_in_range_def)
  define v where "v = (if \<not> ENABLE_PUBLISH_FAILED_SCORM_SCORE cfg \<and>
            (lesson_status self = Some ''failed'' \<or>
             (version_scorm self = ''SCORM_2004'' \<and>
              (success_status self = Some ''failed'' \<or> success_status self = Some ''unknown'')))
         then Finite 0 else lesson_score self)"
  have "unit_score v"
    using score by (simp add: v_def unit_score_iff)
  then have "grade_in_range (weight start) (v, weight start)"
    using w by (rule grade_from_unit)
  moreover have "grades (events (publish_grade cfg self)) =
      grades (events start) @ (new @ [(v, weight start)])"
    by (simp add: publish_grade_grades new(1) weight v_def)
  ultimately have "\<exists>new. grades (events (publish_grade cfg self)) = grades (events start) @ new \<and>
      list_all (grade_in_range (weight start)) new"
    using new(2) by (intro exI [of _ "new @ [(v, weight start)]"]) simp
  then show ?thesis
    using weight score by (simp add: session_in_range_def)
qed

lemma session_in_range_emit [simp]:
  "session_in_range start (emit_completion self c) = session_in_range start self"
  by (simp add: session_in_range_def)

lemma session_in_range_updates [simp]:
  "session_in_range start (self\<lparr>lesson_status := l\<rparr>) = session_in_range start self"
  "session_in_range start (self\<lparr>success_status := s\<rparr>) = session_in_range start self"
  "session_in_range start (self\<lparr>data_scorm := d\<rparr>) = session_in_range start self"
  by (simp_all add: session_in_range_def)

lemma session_in_range_score:
  "session_in_range start self \<Longrightarrow> unit_score x \<Longrightarrow>
   session_in_range start (self\<lparr>lesson_score := x\<rparr>)"
  by (simp add: session_in_range_def)

lemma session_in_range_set_value:
  assumes w: "float_le (Finite 1) (weight start)"
    and inv: "session_in_range start self"
    and ok: "raw_value_in_range data"
  shows "session_in_range start (fst (scorm_set_value cfg self data))"
proof (cases rule: set_value_cases [where data = data and self = self])
  case lesson
  note b = scorm_set_value_returns [OF body_lesson_status [where data = data, OF lesson]]
  show ?thesis
    using inv w by (simp add: b session_in_range_publish)
next
  case success
  note b = scorm_set_value_returns [OF body_success_status [where data = data, OF success]]
  have "unit_score (if data ''value'' = Some ''unknown'' then Finite 0 else lesson_score self)"
    using inv by (simp add: session_in_range_def unit_score_iff)
  with inv have "session_in_range start (self\<lparr>success_status := data ''value'',
      lesson_score := if data ''value'' = Some ''unknown'' then Finite 0 else lesson_score self\<rparr>)"
    by (simp add: session_in_range_def)
  then show ?thesis
    using inv w by (simp add: b session_in_range_publish)
next
  case (raw x)
  from ok raw(1,3) have "unit_score (round_2 (float_div_100 x))"
    by (simp add: raw_value_in_range_def unit_score_round)
  with inv have "session_in_range start (self\<lparr>lesson_score := round_2 (float_div_100 x)\<rparr>)"
    by (rule session_in_range_score)
  then show ?thesis
    using raw w by (simp add: scorm_set_value_raw Let_def session_in_range_publish)
next
  case raise
  then have "set_value_body cfg self data [''result'' \<mapsto> VStr ''success''] = (self, Inl ValueError)"
    by (simp add: body_raw_score)
  from scorm_set_value_raises [OF this] inv show ?thesis
    by simp
next
  case other
  then have "set_value_body cfg self data [''result'' \<mapsto> VStr ''success''] =
      (self\<lparr>data_scorm := (data_scorm self)(data ''name'' \<mapsto> get_or_empty (data ''value''))\<rparr>,
       Inr [''result'' \<mapsto> VStr ''success''])"
    by (rule body_free_form)
  from scorm_set_value_returns [OF this] inv show ?thesis
    by simp
qed

lemma session_in_range_run_sets:
  assumes "float_le (Finite 1) (weight start)"
    and "session_in_range start self"
    and "list_all raw_value_in_range calls"
  shows "session_in_range start (run_sets cfg self calls)"
  using assms(2,3)
proof (induction calls arbitrary: self)
  case Nil
  then show ?case by simp
next
  case (Cons data calls)
  from assms(1) Cons.prems have "session_in_range start (fst (scorm_set_value cfg self data))"
    by (simp add: session_in_range_set_value)
  with Cons.IH Cons.prems(2) show ?case
    by simp
qed

text \<open>
  C3, as the code has it.  The handlers do not clamp the score and do not scale it by
  the weight: \<open>publish_grade\<close> sends 0 or the stored score, as it is, with the weight as
  the maximum.  When the weight is a number that is at least 1, the stored score starts
  as a number between 0 and 1, and every value given to a raw-score key either is
  rejected by \<^verbatim>\<open>float\<close> or reads as a number between 0 and 100 (so not a nan and not an
  infinity), the session keeps the weight and every grade event that it publishes has
  the weight as its maximum and a value with \<^verbatim>\<open>0 <= value <= weight\<close>.
\<close>

theorem published_grades_in_range:
  assumes "float_le (Finite 1) (weight self)"
    and "unit_score (lesson_score self)"
    and "list_all raw_value_in_range calls"
  shows "weight (run_sets cfg self calls) = weight self \<and>
         (\<exists>new. grades (events (run_sets cfg self calls)) = grades (events self) @ new \<and>
                list_all (\<lambda>g. snd g = weight self \<and> float_le (Finite 0) (fst g) \<and>
                              float_le (fst g) (weight self)) new)"
proof -
  from assms(2) have "session_in_range self self"
    by (rule session_in_range_start)
  with assms(1) have "session_in_range self (run_sets cfg self calls)"
    using assms(3) by (rule session_in_range_run_sets)
  then show ?thesis
    by (simp add: session_in_range_def grade_in_range_def [abs_def])
qed

theorem published_grades_in_range_witness:
  "float_le (Finite 1) (weight demo_block) \<and>
   unit_score (lesson_score demo_block) \<and>
   list_all raw_value_in_range
     [[''name'' \<mapsto> ''cmi.core.score.raw'', ''value'' \<mapsto> ''87''],
      [''name'' \<mapsto> ''cmi.core.lesson_status'', ''value'' \<mapsto> ''passed'']] \<and>
   grades (events (run_sets default_settings demo_block
     [[''name'' \<mapsto> ''cmi.core.score.raw'', ''value'' \<mapsto> ''87''],
      [''name'' \<mapsto> ''cmi.core.lesson_status'', ''value'' \<mapsto> ''passed'']])) =
     [(Finite (7836263351624663 / 9007199254740992), Finite 1),
      (Finite (7836263351624663 / 9007199254740992), Finite 1)] \<and>
   weight (run_sets default_settings demo_block
     [[''name'' \<mapsto> ''cmi.core.score.raw'', ''value'' \<mapsto> ''87''],
      [''name'' \<mapsto> ''cmi.core.lesson_status'', ''value'' \<mapsto> ''passed'']]) = Finite 1 \<and>
   (\<exists>new. grades (events (run_sets default_settings demo_block
     [[''name'' \<mapsto> ''cmi.core.score.raw'', ''value'' \<mapsto> ''87''],
      [''name'' \<mapsto> ''cmi.core.lesson_status'', ''value'' \<mapsto> ''passed'']])) =
       grades (events demo_block) @ new \<and>
     list_all (\<lambda>g. snd g = Finite 1 \<and> float_le (Finite 0) (fst g) \<and>
                   float_le (fst g) (Finite 1)) new)"
proof -
  have h1: "float_le (Finite 1) (weight demo_block)"
    by (simp add: demo_block_def new_block_def)
  have h2: "unit_score (lesson_score demo_block)"
    by (simp add: demo_block_def new_block_def unit_score_iff)
  have v1: "float_of_value (Some ''87'') = Some (Finite 87)"
    by (simp add: float_of_value_def float_of_str_87)
  have h3: "list_all raw_value_in_range
     [[''name'' \<mapsto> ''cmi.core.score.raw'', ''value'' \<mapsto> ''87''],
      [''name'' \<mapsto> ''cmi.core.lesson_status'', ''value'' \<mapsto> ''passed'']]"
    by (simp add: raw_value_in_range_def raw_score_key_def v1)
  have run: "grades (events (run_sets default_settings demo_block
     [[''name'' \<mapsto> ''cmi.core.score.raw'', ''value'' \<mapsto> ''87''],
      [''name'' \<mapsto> ''cmi.core.lesson_status'', ''value'' \<mapsto> ''passed'']])) =
     [(Finite (7836263351624663 / 9007199254740992), Finite 1),
      (Finite (7836263351624663 / 9007199254740992), Finite 1)]"
    by code_simp
  have w: "weight demo_block = Finite 1"
    by (simp add: demo_block_def new_block_def)
  note t = published_grades_in_range [OF h1 h2 h3, of default_settings]
  from t [THEN conjunct1] t [THEN conjunct2] h1 h2 h3 run show ?thesis
    unfolding w by blast
qed

theorem published_grade_out_of_range:
  "grades (events (run_sets default_settings demo_block
     [[''name'' \<mapsto> ''cmi.core.score.raw'', ''value'' \<mapsto> ''150'']])) =
     [(Finite (3 / 2), Finite 1)] \<and>
   float_lt (Finite 1) (Finite (3 / 2)) \<and>
   grades (events (run_sets default_settings demo_block
     [[''name'' \<mapsto> ''cmi.core.score.raw'', ''value'' \<mapsto> ''-50'']])) =
     [(Finite (- (1 / 2)), Finite 1)] \<and>
   float_lt (Finite (- (1 / 2))) (Finite 0) \<and>
   grades (events (run_sets default_settings (demo_block\<lparr>weight := Finite (1 / 2)\<rparr>)
     [[''name'' \<mapsto> ''cmi.core.score.raw'', ''value'' \<mapsto> ''87'']])) =
     [(Finite (7836263351624663 / 9007199254740992), Finite (1 / 2))] \<and>
   float_lt (Finite (1 / 2)) (Finite (7836263351624663 / 9007199254740992))"
  by code_simp

text \<open>
  A value that reads as a nan is stored and published as it is, which is why the values
  of a session in range have to be numbers.
\<close>

lemma published_grade_nan:
  "grades (events (run_sets default_settings demo_block
     [[''name'' \<mapsto> ''cmi.core.score.raw'', ''value'' \<mapsto> ''nan'']])) = [(NaN, Finite 1)]"
  by code_simp

end
